theory Spec2Isabelle
  imports Complex_Main
begin

section \<open>Errors and small helpers\<close>

text \<open>
  The exceptions the Python code can raise on the paths embedded below. A function that
  can raise returns \<open>error + 'a\<close>, with \<open>Inl\<close> for the exception. Two more outcomes end
  an embedded function where the embedding ends: \<open>NotANumber\<close> where the Python would go on
  computing with a nan or an infinity (reals have none), and \<open>Unmodelled\<close> for a path that is not followed.
\<close>

datatype error =
    AttributeError
  | IndexError
  | KeyError
  | ValueError
  | NotImplementedError
  | UnboundLocalError
  | NotANumber
  | Unmodelled

type_synonym name = string
type_synonym snapshot = string

section \<open>Newton-Raphson iteration (pf.py, newton\_raphson\_sparse)\<close>

text \<open>
  Vectors are lists of reals. \<open>norm(F, np.Inf)\<close> is the largest absolute entry; numpy
  raises ValueError on a vector without entries (a reduction over nothing).
\<close>

definition norm_Inf :: "real list \<Rightarrow> error + real" where
  "norm_Inf F = (case F of [] \<Rightarrow> Inl ValueError | x # xs \<Rightarrow> Inr (Max (set (map abs (x # xs)))))"

text \<open>
  \<open>guess - spsolve(...)\<close> on numpy vectors: entry by entry when the lengths agree, a
  vector of one entry is broadcast, and any other pair of lengths raises ValueError.
\<close>

definition vec_sub :: "real list \<Rightarrow> real list \<Rightarrow> error + real list" where
  "vec_sub xs ys =
     (if length xs = length ys then Inr (map2 (-) xs ys)
      else if length ys = 1 then Inr (map (\<lambda>x. x - hd ys) xs)
      else if length xs = 1 then Inr (map (\<lambda>y. hd xs - y) ys)
      else Inl ValueError)"

text \<open>
  One pass through the body of the while loop: the Newton update of the guess, the new
  mismatch and its norm. The callbacks \<open>f\<close> and \<open>dfdx\<close> may raise; the sparse solver
  \<open>spsolve\<close> of scipy is a parameter.
\<close>

definition nr_body ::
  "(real list \<Rightarrow> error + real list) \<Rightarrow> (real list \<Rightarrow> error + 'J) \<Rightarrow>
   ('J \<Rightarrow> real list \<Rightarrow> real list) \<Rightarrow>
   real list \<Rightarrow> real list \<Rightarrow> error + (real list \<times> real list \<times> real)" where
  "nr_body f dfdx spsolve guess F =
     (case dfdx guess of
        Inl e \<Rightarrow> Inl e
      | Inr J \<Rightarrow>
     (case vec_sub guess (spsolve J F) of
        Inl e \<Rightarrow> Inl e
      | Inr guess' \<Rightarrow>
     (case f guess' of
        Inl e \<Rightarrow> Inl e
      | Inr F' \<Rightarrow>
          (case norm_Inf F' of
             Inl e \<Rightarrow> Inl e
           | Inr diff \<Rightarrow> Inr (guess', F', diff)))))"

function nr_while ::
  "(real list \<Rightarrow> error + real list) \<Rightarrow> (real list \<Rightarrow> error + 'J) \<Rightarrow>
   ('J \<Rightarrow> real list \<Rightarrow> real list) \<Rightarrow>
   real \<Rightarrow> int \<Rightarrow> real list \<Rightarrow> real list \<Rightarrow> real \<Rightarrow> int \<Rightarrow> error + (real list \<times> int \<times> real)" where
  "nr_while f dfdx spsolve x_tol lim_iter guess F diff n_iter =
     (if diff > x_tol \<and> n_iter < lim_iter then
        (case nr_body f dfdx spsolve guess F of
           Inl e \<Rightarrow> Inl e
         | Inr (guess', F', diff') \<Rightarrow>
             nr_while f dfdx spsolve x_tol lim_iter guess' F' diff' (n_iter + 1))
      else Inr (guess, n_iter, diff))"
  by pat_completeness auto
termination
  by (relation "measure (\<lambda>(f, dfdx, spsolve, x_tol, lim_iter, guess, F, diff, n_iter).
        nat (lim_iter - n_iter))") auto

declare nr_while.simps [simp del]

definition newton_raphson_sparse ::
  "(real list \<Rightarrow> error + real list) \<Rightarrow> real list \<Rightarrow> (real list \<Rightarrow> error + 'J) \<Rightarrow>
   ('J \<Rightarrow> real list \<Rightarrow> real list) \<Rightarrow> real \<Rightarrow> int \<Rightarrow> error + (real list \<times> int \<times> real)" where
  "newton_raphson_sparse f guess dfdx spsolve x_tol lim_iter =
     (case f guess of
        Inl e \<Rightarrow> Inl e
      | Inr F \<Rightarrow>
          (case norm_Inf F of
             Inl e \<Rightarrow> Inl e
           | Inr diff \<Rightarrow> nr_while f dfdx spsolve x_tol lim_iter guess F diff 0))"

text \<open>
  For callbacks that do not raise: the Newton update \<open>x - J(x)\<^sup>-\<^sup>1 F(x)\<close> as a function of
  the iterate alone, and the norm of the mismatch at an iterate.
\<close>

definition newton_update ::
  "(real list \<Rightarrow> real list) \<Rightarrow> (real list \<Rightarrow> 'J) \<Rightarrow> ('J \<Rightarrow> real list \<Rightarrow> real list) \<Rightarrow>
   real list \<Rightarrow> real list" where
  "newton_update f dfdx spsolve x = map2 (-) x (spsolve (dfdx x) (f x))"

definition residual :: "(real list \<Rightarrow> real list) \<Rightarrow> real list \<Rightarrow> real" where
  "residual f x = Max (set (map abs (f x)))"

subsection \<open>Termination and result of the iteration\<close>

lemma nr_body_ok:
  assumes "\<forall>x. f x \<noteq> []" and "\<forall>x F. length (spsolve (dfdx x) F) = length x"
  shows "nr_body (\<lambda>x. Inr (f x)) (\<lambda>x. Inr (dfdx x)) spsolve guess (f guess) =
     Inr (newton_update f dfdx spsolve guess, f (newton_update f dfdx spsolve guess),
          residual f (newton_update f dfdx spsolve guess))"
proof -
  have v: "vec_sub guess (spsolve (dfdx guess) (f guess)) = Inr (newton_update f dfdx spsolve guess)"
    using assms(2) by (simp add: vec_sub_def newton_update_def)
  have n: "norm_Inf (f y) = Inr (residual f y)" for y
    using assms(1) by (cases "f y") (simp_all add: norm_Inf_def residual_def)
  show ?thesis by (simp add: nr_body_def v n)
qed

lemma nr_while_result:
  assumes "f' = (\<lambda>x. Inr (f x))" and "dfdx' = (\<lambda>x. Inr (dfdx x))"
    and "\<forall>x. f x \<noteq> []" and "\<forall>x F. length (spsolve (dfdx x) F) = length x"
    and "F = f guess" and "diff = residual f guess" and "n \<le> lim_iter"
  shows "\<exists>x n' d. nr_while f' dfdx' spsolve x_tol lim_iter guess F diff n = Inr (x, n', d)
      \<and> n \<le> n' \<and> n' \<le> lim_iter
      \<and> x = (newton_update f dfdx spsolve ^^ nat (n' - n)) guess
      \<and> d = residual f x
      \<and> (d \<le> x_tol \<or> n' = lim_iter)
      \<and> (\<forall>k. k < nat (n' - n) \<longrightarrow> x_tol < residual f ((newton_update f dfdx spsolve ^^ k) guess))"
  using assms
proof (induction f' dfdx' spsolve x_tol lim_iter guess F diff n rule: nr_while.induct)
  case (1 f' dfdx' spsolve x_tol lim_iter guess F diff n_iter)
  let ?u = "newton_update f dfdx spsolve"
  note fd = "1.prems"(1,2)
  show ?case
  proof (cases "diff > x_tol \<and> n_iter < lim_iter")
    case False
    then have "nr_while f' dfdx' spsolve x_tol lim_iter guess F diff n_iter = Inr (guess, n_iter, diff)"
      by (subst nr_while.simps) auto
    with False "1.prems" show ?thesis by auto
  next
    case True
    have b: "nr_body f' dfdx' spsolve guess F = Inr (?u guess, f (?u guess), residual f (?u guess))"
      unfolding fd
      using nr_body_ok[where f=f and dfdx=dfdx and spsolve=spsolve and guess=guess] "1.prems"(3,4,5)
      by simp
    have step: "nr_while f' dfdx' spsolve x_tol lim_iter guess F diff n_iter =
        nr_while f' dfdx' spsolve x_tol lim_iter (?u guess) (f (?u guess)) (residual f (?u guess)) (n_iter + 1)"
      using True b by (subst nr_while.simps) simp
    have "\<exists>x n' d. nr_while f' dfdx' spsolve x_tol lim_iter (?u guess) (f (?u guess)) (residual f (?u guess)) (n_iter + 1) = Inr (x, n', d)
      \<and> n_iter + 1 \<le> n' \<and> n' \<le> lim_iter
      \<and> x = (?u ^^ nat (n' - (n_iter + 1))) (?u guess)
      \<and> d = residual f x
      \<and> (d \<le> x_tol \<or> n' = lim_iter)
      \<and> (\<forall>k. k < nat (n' - (n_iter + 1)) \<longrightarrow> x_tol < residual f ((?u ^^ k) (?u guess)))"
      by (rule "1.IH"[OF True b refl refl]) (use "1.prems"(1,2,3,4) True in auto)
    then obtain x n' d where r: "nr_while f' dfdx' spsolve x_tol lim_iter (?u guess) (f (?u guess)) (residual f (?u guess)) (n_iter + 1) = Inr (x, n', d)"
      and le: "n_iter + 1 \<le> n'" "n' \<le> lim_iter"
      and x: "x = (?u ^^ nat (n' - (n_iter + 1))) (?u guess)"
      and d: "d = residual f x" "d \<le> x_tol \<or> n' = lim_iter"
      and k: "\<forall>k. k < nat (n' - (n_iter + 1)) \<longrightarrow> x_tol < residual f ((?u ^^ k) (?u guess))"
      by auto
    have nat_eq: "nat (n' - n_iter) = Suc (nat (n' - (n_iter + 1)))" using le by simp
    have x': "x = (?u ^^ nat (n' - n_iter)) guess"
      unfolding nat_eq x by (simp add: funpow_swap1)
    have k': "x_tol < residual f ((?u ^^ k) guess)" if "k < nat (n' - n_iter)" for k
    proof (cases k)
      case 0
      then show ?thesis using True "1.prems"(6) by simp
    next
      case (Suc j)
      then have "j < nat (n' - (n_iter + 1))" using that nat_eq by simp
      then show ?thesis using k Suc by (simp add: funpow_swap1)
    qed
    show ?thesis using step r le x' d k' by auto
  qed
qed

text \<open>
  Claim C4. For every mismatch function, Jacobian, initial guess, tolerance and iteration
  cap, \<open>newton_raphson_sparse\<close> terminates after at most \<open>lim_iter\<close> Newton updates,
  stops as soon as the infinity norm of the mismatch at the current iterate is at most
  \<open>x_tol\<close>, and returns the final iterate with the iteration count and the final residual
  norm. The function is total by its termination proof; it returns (rather than raises)
  when the callbacks do not raise, the mismatch vector is never empty and the solver
  returns a step of the length of the iterate. The returned count \<open>n\<close> is the number of
  updates applied, it is at most \<open>lim_iter\<close>, every earlier iterate had a residual above
  \<open>x_tol\<close>, and at the end either the residual is within \<open>x_tol\<close> or the cap is reached.
\<close>

theorem newton_raphson_sparse_terminates:
  assumes "0 \<le> lim_iter"
      and "\<forall>x. f x \<noteq> []"
      and "\<forall>x F. length (spsolve (dfdx x) F) = length x"
  shows "\<exists>x n diff.
        newton_raphson_sparse (\<lambda>x. Inr (f x)) guess (\<lambda>x. Inr (dfdx x)) spsolve x_tol lim_iter
          = Inr (x, n, diff)
      \<and> 0 \<le> n \<and> n \<le> lim_iter
      \<and> x = (newton_update f dfdx spsolve ^^ nat n) guess
      \<and> diff = residual f x
      \<and> (diff \<le> x_tol \<or> n = lim_iter)
      \<and> (\<forall>k. k < nat n \<longrightarrow> x_tol < residual f ((newton_update f dfdx spsolve ^^ k) guess))"
proof -
  have n: "norm_Inf (f guess) = Inr (residual f guess)"
    using assms(2) by (cases "f guess") (simp_all add: norm_Inf_def residual_def)
  show ?thesis
    using nr_while_result[where f=f and spsolve=spsolve and dfdx=dfdx and guess=guess
        and f'="\<lambda>x. Inr (f x)" and dfdx'="\<lambda>x. Inr (dfdx x)"
        and F="f guess" and diff="residual f guess" and n=0 and lim_iter=lim_iter and x_tol=x_tol]
      assms
    by (simp add: newton_raphson_sparse_def n)
qed

theorem newton_raphson_sparse_terminates_witness:
  "(0::int) \<le> 100 \<and> (\<forall>x. (\<lambda>x::real list. [sum_list x - 1]) x \<noteq> [])
   \<and> (\<forall>x F. length ((\<lambda>n F. replicate n (hd F)) ((\<lambda>x. length x) x) F) = length x)
   \<and> newton_raphson_sparse (\<lambda>x. Inr [sum_list x - 1]) [0] (\<lambda>x. Inr (length x))
        (\<lambda>n F. replicate n (hd F)) (1/1000000) 100
       = Inr ([1], 1, 0)"
proof -
  have h1: "(0::int) \<le> 100" by simp
  have h2: "\<forall>x. (\<lambda>x::real list. [sum_list x - 1]) x \<noteq> []" by simp
  have h3: "\<forall>x F. length ((\<lambda>n F::real list. replicate n (hd F)) ((\<lambda>x::real list. length x) x) F) = length x" by simp
  from newton_raphson_sparse_terminates[where f="\<lambda>x. [sum_list x - 1]" and dfdx="\<lambda>x. length x"
      and spsolve="\<lambda>n F. replicate n (hd F)" and lim_iter=100 and guess="[0]" and x_tol="1/1000000"] h1 h2 h3
  obtain x n d where r: "newton_raphson_sparse (\<lambda>x. Inr [sum_list x - 1]) [0] (\<lambda>x. Inr (length x))
      (\<lambda>n F. replicate n (hd F)) (1/1000000) 100 = Inr (x, n, d)"
    by blast
  have "newton_raphson_sparse (\<lambda>x. Inr [sum_list x - 1]) [0] (\<lambda>x. Inr (length x))
      (\<lambda>n F. replicate n (hd F)) (1/1000000) 100 = Inr ([1], 1, 0)"
    by (simp add: newton_raphson_sparse_def norm_Inf_def nr_body_def vec_sub_def nr_while.simps)
  with h1 h2 h3 r show ?thesis by simp
qed

section \<open>The network and its tables (components.py)\<close>

text \<open>
  A component table (a pandas DataFrame indexed by name) is the list of its rows in index
  order; a row is a record of the columns that the embedded functions read or write.
  \<open>Network.add\<close> keeps the index of a table free of duplicates. Floats are reals; a
  column that can hold nan where the code tests or produces it is a \<open>real option\<close>, with
  \<open>None\<close> for nan.
\<close>

record bus =
  b_name :: name
  b_v_nom :: real
  b_control :: string
  b_generator :: "string option"
  b_current_type :: string
  b_sub_network :: string

record generator =
  g_name :: name
  g_bus :: name
  g_sign :: real
  g_control :: string
  g_p_nom :: real
  g_p_nom_extendable :: bool

record storage_unit =
  su_name :: name
  su_bus :: name
  su_sign :: real
  su_p_nom :: real
  su_p_nom_extendable :: bool
  su_state_of_charge_initial :: real
  su_efficiency_store :: real
  su_efficiency_dispatch :: real
  su_standing_loss :: real

record load =
  l_name :: name
  l_bus :: name
  l_sign :: real

record shunt_impedance =
  sh_name :: name
  sh_bus :: name
  sh_sign :: real
  sh_g :: real
  sh_b :: real
  sh_g_pu :: "real option"
  sh_b_pu :: "real option"
  sh_v_nom :: "real option"

record line =
  ln_name :: name
  ln_bus0 :: name
  ln_bus1 :: name
  ln_s_nom :: real
  ln_s_nom_extendable :: bool
  ln_r :: real
  ln_x :: real
  ln_g :: real
  ln_b :: real
  ln_x_pu :: "real option"
  ln_r_pu :: "real option"
  ln_g_pu :: "real option"
  ln_b_pu :: "real option"
  ln_v_nom :: "real option"
  ln_sub_network :: string

record transformer =
  tr_name :: name
  tr_bus0 :: name
  tr_bus1 :: name
  tr_s_nom :: real
  tr_s_nom_extendable :: bool
  tr_r :: real
  tr_x :: real
  tr_g :: real
  tr_b :: real
  tr_x_pu :: "real option"
  tr_r_pu :: "real option"
  tr_g_pu :: real
  tr_b_pu :: real
  tr_tap_ratio :: "real option"
  tr_phase_shift :: "real option"
  tr_sub_network :: string

text \<open>Converter and TransportLink have the same columns: a controllable branch.\<close>

record controllable =
  cb_name :: name
  cb_bus0 :: name
  cb_bus1 :: name
  cb_s_nom :: real
  cb_s_nom_extendable :: bool

text \<open>
  A row of \<open>network.branches\<close>, the concatenation of the four branch tables under the keys
  Line, Transformer, Converter and TransportLink. A column that a table does not have is nan
  in the rows of that table.
\<close>

record branch =
  br_type :: string
  br_name :: name
  br_bus0 :: name
  br_bus1 :: name
  br_r_pu :: "real option"
  br_x_pu :: "real option"
  br_g_pu :: "real option"
  br_b_pu :: "real option"
  br_tap_ratio :: "real option"
  br_phase_shift :: "real option"
  br_sub_network :: "string option"

text \<open>
  A SubNetwork object: its row of the \<open>sub_networks\<close> table and the attributes that the
  power flow functions store on it. \<open>buses_o\<close> is the ordered bus table, the slack bus
  first; the position of a row is its column \<open>i\<close>. Matrices are lists of rows.
\<close>

record sub_network =
  sn_name :: name
  sn_current_type :: string
  slack_bus :: name
  slack_generator :: name
  pvs :: "bus list"
  pqs :: "bus list"
  pvpqs :: "bus list"
  buses_o :: "bus list"
  sn_B :: "real list list"
  sn_H :: "real list list"
  sn_PTDF :: "real list list"
  sn_Y :: "complex list list"
  sn_Y0 :: "complex list list"
  sn_Y1 :: "complex list list"

text \<open>
  A per-snapshot table (rows are snapshots, columns are component names): \<open>None\<close> where the
  table has no such cell. The series of all tables are kept by list name and attribute,
  as in \<open>network.buses.p\<close>. The state of charge of storage units can hold nan (its default).
\<close>

type_synonym frame = "snapshot \<Rightarrow> name \<rightharpoonup> real"

text \<open>
  What the LP solver hands back: the status and termination condition, the lower bound,
  the values of the variables and the duals of the constraints, by component and index.
\<close>

record solver_results =
  status :: string
  termination_condition :: string
  lower_bound :: real
  var_value :: "string \<Rightarrow> string list \<Rightarrow> real"
  dual :: "string \<Rightarrow> string list \<Rightarrow> real"

text \<open>
  The Network object. \<open>dc_opf_formulation\<close> is the class attribute of components.py (default
  "ptdf"); \<open>lopf_formulation\<close> and \<open>ptdf_tolerance\<close> are the attributes that opf.py reads: the
  class does not declare them, so they exist only when set on the instance. \<open>model\<close> is the
  list of the components declared on the pyomo model, each with the function that declares it.
\<close>

record network =
  buses :: "bus list"
  generators :: "generator list"
  storage_units :: "storage_unit list"
  loads :: "load list"
  shunt_impedances :: "shunt_impedance list"
  lines :: "line list"
  transformers :: "transformer list"
  converters :: "controllable list"
  transport_links :: "controllable list"
  sub_networks :: "sub_network list"
  series :: "string \<times> string \<Rightarrow> frame"
  state_of_charge :: "snapshot \<Rightarrow> name \<rightharpoonup> real option"
  now :: snapshot
  snapshot_weightings :: "snapshot \<rightharpoonup> real"
  co2_limit :: "real option"
  topology_determined :: bool
  dependent_values_calculated :: bool
  nr_x_tol :: real
  dc_opf_formulation :: string
  lopf_formulation :: "string option"
  ptdf_tolerance :: "real option"
  model :: "(string \<times> string) list"
  results :: "solver_results option"
  objective :: "real option"

subsection \<open>Properties of Bus and SubNetwork\<close>

text \<open>
  \<open>SubNetwork.buses\<close> are the bus rows labelled with the sub-network. The one-port
  properties of a sub-network are a left join of the component table with these buses on
  the component's bus, filtered on the joined \<open>sub_network\<close> column: the rows whose bus is
  a bus of the sub-network, in the order of the component table.
\<close>

definition sn_buses :: "network \<Rightarrow> sub_network \<Rightarrow> bus list" where
  "sn_buses network sub_network =
     filter (\<lambda>b. b_sub_network b = sn_name sub_network) (buses network)"

definition sn_generators :: "network \<Rightarrow> sub_network \<Rightarrow> generator list" where
  "sn_generators network sub_network =
     filter (\<lambda>g. g_bus g \<in> set (map b_name (sn_buses network sub_network))) (generators network)"

definition sn_loads :: "network \<Rightarrow> sub_network \<Rightarrow> load list" where
  "sn_loads network sub_network =
     filter (\<lambda>l. l_bus l \<in> set (map b_name (sn_buses network sub_network))) (loads network)"

definition sn_shunt_impedances :: "network \<Rightarrow> sub_network \<Rightarrow> shunt_impedance list" where
  "sn_shunt_impedances network sub_network =
     filter (\<lambda>s. sh_bus s \<in> set (map b_name (sn_buses network sub_network)))
       (shunt_impedances network)"

definition bus_generators :: "network \<Rightarrow> name \<Rightarrow> generator list" where
  "bus_generators network b = filter (\<lambda>g. g_bus g = b) (generators network)"

definition bus_loads :: "network \<Rightarrow> name \<Rightarrow> load list" where
  "bus_loads network b = filter (\<lambda>l. l_bus l = b) (loads network)"

definition bus_storage_units :: "network \<Rightarrow> name \<Rightarrow> storage_unit list" where
  "bus_storage_units network b = filter (\<lambda>s. su_bus s = b) (storage_units network)"

definition bus_shunt_impedances :: "network \<Rightarrow> name \<Rightarrow> shunt_impedance list" where
  "bus_shunt_impedances network b = filter (\<lambda>s. sh_bus s = b) (shunt_impedances network)"

section \<open>Slack bus selection (pf.py, find\_slack\_bus)\<close>

text \<open>
  \<open>network.generators.loc[names, "control"] = c\<close>: the control column of the rows with
  these names. The function returns the network and the sub-network object as it leaves
  them; printing is left out.
\<close>

definition set_generator_control :: "name list \<Rightarrow> string \<Rightarrow> network \<Rightarrow> network" where
  "set_generator_control names c network =
     network\<lparr>generators :=
       map (\<lambda>g. if g_name g \<in> set names then g\<lparr>g_control := c\<rparr> else g) (generators network)\<rparr>"

definition find_slack_bus :: "network \<Rightarrow> sub_network \<Rightarrow> error + (network \<times> sub_network)" where
  "find_slack_bus network sub_network =
     (let gens = sn_generators network sub_network in
      if length gens = 0 then
        (case map b_name (sn_buses network sub_network) of
           [] \<Rightarrow> Inl IndexError
         | b # _ \<Rightarrow> Inr (network, sub_network\<lparr>slack_bus := b, slack_generator := ''''\<rparr>))
      else
        (let slacks = filter (\<lambda>g. g_control g = ''Slack'') gens;
             (network', sg) =
               (if length slacks = 0 then
                  (set_generator_control [g_name (hd gens)] ''Slack'' network, g_name (hd gens))
                else if length slacks = 1 then (network, g_name (hd slacks))
                else (set_generator_control (map g_name (tl slacks)) ''PV'' network,
                      g_name (hd slacks)))
         in (case find (\<lambda>g. g_name g = sg) gens of
               None \<Rightarrow> Inl KeyError
             | Some g \<Rightarrow> Inr (network', sub_network\<lparr>slack_bus := g_bus g, slack_generator := sg\<rparr>))))"

subsection \<open>The selected slack generator and bus\<close>

lemma find_by_name:
  "distinct (map f xs) \<Longrightarrow> x \<in> set xs \<Longrightarrow> find (\<lambda>y. f y = f x) xs = Some x"
  by (induction xs) (auto simp: image_iff)

lemma name_mem_iff:
  assumes "distinct (map f xs)" and "set ys \<subseteq> set xs" and "x \<in> set xs"
  shows "f x \<in> set (map f ys) \<longleftrightarrow> x \<in> set ys"
proof
  assume "f x \<in> set (map f ys)"
  then obtain y where y: "y \<in> set ys" "f y = f x" by auto
  then have "y \<in> set xs" using assms(2) by auto
  with assms(1,3) y(2) have "y = x" by (meson distinct_map inj_onD)
  with y show "x \<in> set ys" by simp
qed auto

lemma sn_generators_distinct:
  "distinct (map g_name (generators network)) \<Longrightarrow>
   distinct (map g_name (sn_generators network sub_network))"
  by (simp add: sn_generators_def distinct_map_filter)

text \<open>
  Claim C3. For a sub-network with at least one bus, in a network whose generator names are
  distinct, \<open>find_slack_bus\<close> selects the slack as follows. Without generators in the
  sub-network, the slack generator is the empty string and the slack bus is the first bus
  of the sub-network. Otherwise, if no generator has control "Slack", the first generator
  is promoted to "Slack" and chosen; if exactly one has, it is chosen and nothing changes;
  if several have, the first is chosen and every other one is demoted to "PV". The slack
  bus is the bus of the chosen generator.
\<close>

theorem find_slack_bus_selects:
  assumes "distinct (map g_name (generators network))"
      and "sn_buses network sub_network \<noteq> []"
  shows "let gens = sn_generators network sub_network;
             slacks = filter (\<lambda>g. g_control g = ''Slack'') gens in
     (gens = [] \<longrightarrow>
        find_slack_bus network sub_network =
          Inr (network, sub_network\<lparr>slack_bus := b_name (hd (sn_buses network sub_network)),
                                    slack_generator := ''''\<rparr>))
   \<and> (gens \<noteq> [] \<and> slacks = [] \<longrightarrow>
        find_slack_bus network sub_network =
          Inr (network\<lparr>generators :=
                 map (\<lambda>g. if g = hd gens then g\<lparr>g_control := ''Slack''\<rparr> else g) (generators network)\<rparr>,
               sub_network\<lparr>slack_bus := g_bus (hd gens), slack_generator := g_name (hd gens)\<rparr>))
   \<and> (length slacks = 1 \<longrightarrow>
        find_slack_bus network sub_network =
          Inr (network,
               sub_network\<lparr>slack_bus := g_bus (hd slacks), slack_generator := g_name (hd slacks)\<rparr>))
   \<and> (length slacks > 1 \<longrightarrow>
        find_slack_bus network sub_network =
          Inr (network\<lparr>generators :=
                 map (\<lambda>g. if g \<in> set (tl slacks) then g\<lparr>g_control := ''PV''\<rparr> else g)
                   (generators network)\<rparr>,
               sub_network\<lparr>slack_bus := g_bus (hd slacks), slack_generator := g_name (hd slacks)\<rparr>))"
proof -
  define gens where "gens = sn_generators network sub_network"
  define slacks where "slacks = filter (\<lambda>g. g_control g = ''Slack'') gens"
  have dg: "distinct (map g_name gens)"
    unfolding gens_def by (rule sn_generators_distinct[OF assms(1)])
  have sub: "set gens \<subseteq> set (generators network)"
    unfolding gens_def sn_generators_def by auto
  have ssub: "set slacks \<subseteq> set gens" unfolding slacks_def by auto
  have fnd: "find (\<lambda>g. g_name g = g_name x) gens = Some x" if "x \<in> set gens" for x
    using find_by_name[OF dg that] .
  have c0: "find_slack_bus network sub_network =
          Inr (network, sub_network\<lparr>slack_bus := b_name (hd (sn_buses network sub_network)),
                                    slack_generator := ''''\<rparr>)" if "gens = []"
    using that assms(2) unfolding find_slack_bus_def gens_def[symmetric]
    by (cases "sn_buses network sub_network") simp_all
  have c1: "find_slack_bus network sub_network =
          Inr (network\<lparr>generators :=
                 map (\<lambda>g. if g = hd gens then g\<lparr>g_control := ''Slack''\<rparr> else g) (generators network)\<rparr>,
               sub_network\<lparr>slack_bus := g_bus (hd gens), slack_generator := g_name (hd gens)\<rparr>)"
    if "gens \<noteq> []" "slacks = []"
  proof -
    have h: "hd gens \<in> set gens" using that(1) by simp
    have m: "map (\<lambda>g. if g_name g \<in> set [g_name (hd gens)] then g\<lparr>g_control := ''Slack''\<rparr> else g) (generators network)
           = map (\<lambda>g. if g = hd gens then g\<lparr>g_control := ''Slack''\<rparr> else g) (generators network)"
    proof (rule map_cong[OF refl])
      fix g assume g: "g \<in> set (generators network)"
      have "g_name g \<in> set (map g_name [hd gens]) \<longleftrightarrow> g \<in> set [hd gens]"
        by (rule name_mem_iff[OF assms(1) _ g]) (use h sub in auto)
      then show "(if g_name g \<in> set [g_name (hd gens)] then g\<lparr>g_control := ''Slack''\<rparr> else g)
          = (if g = hd gens then g\<lparr>g_control := ''Slack''\<rparr> else g)" by simp
    qed
    show ?thesis
      using that fnd[OF h] m
      unfolding find_slack_bus_def gens_def[symmetric] Let_def slacks_def[symmetric]
      by (simp add: set_generator_control_def)
  qed
  have c2: "find_slack_bus network sub_network =
          Inr (network,
               sub_network\<lparr>slack_bus := g_bus (hd slacks), slack_generator := g_name (hd slacks)\<rparr>)"
    if "length slacks = 1"
  proof -
    have ne: "slacks \<noteq> []" "gens \<noteq> []" using that slacks_def by auto
    have h: "hd slacks \<in> set gens" using ne ssub by auto
    show ?thesis
      using that ne fnd[OF h]
      unfolding find_slack_bus_def gens_def[symmetric] Let_def slacks_def[symmetric]
      by simp
  qed
  have c3: "find_slack_bus network sub_network =
          Inr (network\<lparr>generators :=
                 map (\<lambda>g. if g \<in> set (tl slacks) then g\<lparr>g_control := ''PV''\<rparr> else g)
                   (generators network)\<rparr>,
               sub_network\<lparr>slack_bus := g_bus (hd slacks), slack_generator := g_name (hd slacks)\<rparr>)"
    if "length slacks > 1"
  proof -
    have ne: "slacks \<noteq> []" "gens \<noteq> []" using that slacks_def by auto
    have h: "hd slacks \<in> set gens" using ne ssub by auto
    have tsub: "set (tl slacks) \<subseteq> set (generators network)"
      using ssub sub ne(1) by (meson list.set_sel(2) subset_iff)
    have m: "map (\<lambda>g. if g_name g \<in> set (map g_name (tl slacks)) then g\<lparr>g_control := ''PV''\<rparr> else g) (generators network)
           = map (\<lambda>g. if g \<in> set (tl slacks) then g\<lparr>g_control := ''PV''\<rparr> else g) (generators network)"
    proof (rule map_cong[OF refl])
      fix g assume g: "g \<in> set (generators network)"
      have "g_name g \<in> set (map g_name (tl slacks)) \<longleftrightarrow> g \<in> set (tl slacks)"
        by (rule name_mem_iff[OF assms(1) tsub g])
      then show "(if g_name g \<in> set (map g_name (tl slacks)) then g\<lparr>g_control := ''PV''\<rparr> else g)
          = (if g \<in> set (tl slacks) then g\<lparr>g_control := ''PV''\<rparr> else g)" by simp
    qed
    show ?thesis
      using that ne fnd[OF h] m
      unfolding find_slack_bus_def gens_def[symmetric] Let_def slacks_def[symmetric]
      by (simp add: set_generator_control_def)
  qed
  show ?thesis
    unfolding Let_def gens_def[symmetric] slacks_def[symmetric]
    using c0 c1 c2 c3 by blast
qed

text \<open>
  Example inputs: \<open>Network()\<close> without arguments, rows with the defaults of their classes,
  and a network of two buses and three generators in one sub-network.
\<close>

definition new_network :: network where
  "new_network =
     \<lparr>buses = [], generators = [], storage_units = [], loads = [], shunt_impedances = [],
      lines = [], transformers = [], converters = [], transport_links = [], sub_networks = [],
      series = (\<lambda>k s. Map.empty), state_of_charge = (\<lambda>s. Map.empty),
      now = ''now'', snapshot_weightings = [''now'' \<mapsto> 1], co2_limit = None,
      topology_determined = False, dependent_values_calculated = False,
      nr_x_tol = 1 / 1000000, dc_opf_formulation = ''ptdf'', lopf_formulation = None,
      ptdf_tolerance = None, model = [], results = None, objective = None\<rparr>"

definition new_bus :: "name \<Rightarrow> string \<Rightarrow> bus" where
  "new_bus n sn = \<lparr>b_name = n, b_v_nom = 1, b_control = ''PQ'', b_generator = None,
     b_current_type = ''AC'', b_sub_network = sn\<rparr>"

definition new_generator :: "name \<Rightarrow> name \<Rightarrow> string \<Rightarrow> generator" where
  "new_generator n b c = \<lparr>g_name = n, g_bus = b, g_sign = 1, g_control = c, g_p_nom = 0,
     g_p_nom_extendable = False\<rparr>"

definition new_sub_network :: "name \<Rightarrow> sub_network" where
  "new_sub_network n = \<lparr>sn_name = n, sn_current_type = ''AC'', slack_bus = '''',
     slack_generator = '''', pvs = [], pqs = [], pvpqs = [], buses_o = [], sn_B = [], sn_H = [],
     sn_PTDF = [], sn_Y = [], sn_Y0 = [], sn_Y1 = []\<rparr>"

definition three_generators :: network where
  "three_generators = new_network
     \<lparr>buses := [new_bus ''b1'' ''0'', new_bus ''b2'' ''0''],
      generators := [new_generator ''g1'' ''b1'' ''PQ'', new_generator ''g2'' ''b2'' ''Slack'',
                     new_generator ''g3'' ''b1'' ''Slack''],
      sub_networks := [new_sub_network ''0'']\<rparr>"

theorem find_slack_bus_selects_witness:
  "distinct (map g_name (generators three_generators))
   \<and> sn_buses three_generators (new_sub_network ''0'') \<noteq> []
   \<and> find_slack_bus three_generators (new_sub_network ''0'') =
       Inr (three_generators\<lparr>generators :=
              [new_generator ''g1'' ''b1'' ''PQ'', new_generator ''g2'' ''b2'' ''Slack'',
               new_generator ''g3'' ''b1'' ''PV'']\<rparr>,
            (new_sub_network ''0'')\<lparr>slack_bus := ''b2'', slack_generator := ''g2''\<rparr>)"
proof -
  have h1: "distinct (map g_name (generators three_generators))"
    by (simp add: three_generators_def new_generator_def)
  have h2: "sn_buses three_generators (new_sub_network ''0'') \<noteq> []"
    by (simp add: three_generators_def sn_buses_def new_bus_def new_sub_network_def)
  have g: "sn_generators three_generators (new_sub_network ''0'') = generators three_generators"
    by (simp add: three_generators_def sn_generators_def sn_buses_def new_bus_def
        new_sub_network_def new_generator_def)
  have "find_slack_bus three_generators (new_sub_network ''0'') =
       Inr (three_generators\<lparr>generators :=
              [new_generator ''g1'' ''b1'' ''PQ'', new_generator ''g2'' ''b2'' ''Slack'',
               new_generator ''g3'' ''b1'' ''PV'']\<rparr>,
            (new_sub_network ''0'')\<lparr>slack_bus := ''b2'', slack_generator := ''g2''\<rparr>)"
    using find_slack_bus_selects[OF h1 h2] unfolding g Let_def
    by (simp add: three_generators_def new_generator_def)
  with h1 h2 show ?thesis by simp
qed

section \<open>Per-unit values (pf.py, calculate\_dependent\_values)\<close>

text \<open>
  The left join of a component table with \<open>network.buses\<close> on the component's bus, read at
  the column \<open>v_nom\<close>: the nominal voltage of the bus of that name, nan when there is none.
  The old \<open>v_nom\<close> column of the component table is dropped before the join.
\<close>

definition join_v_nom :: "network \<Rightarrow> name \<Rightarrow> real option" where
  "join_v_nom network b = map_option b_v_nom (find (\<lambda>r. b_name r = b) (buses network))"

text \<open>
  Arithmetic on columns of floats. \<open>None\<close> stands for a value that is not a finite number:
  nan in gives nan out, and a division by zero gives an infinity or, for \<open>0/0\<close>, nan.
\<close>

definition div_float :: "real \<Rightarrow> real \<Rightarrow> real option" where
  "div_float x y = (if y = 0 then None else Some (x / y))"

definition div_sq :: "real \<Rightarrow> real option \<Rightarrow> real option" where
  "div_sq x v_nom = (case v_nom of None \<Rightarrow> None | Some v \<Rightarrow> div_float x (v ^ 2))"

definition mul_sq :: "real \<Rightarrow> real option \<Rightarrow> real option" where
  "mul_sq x v_nom = map_option (\<lambda>v. x * v ^ 2) v_nom"

definition calculate_dependent_values :: "network \<Rightarrow> network" where
  "calculate_dependent_values network =
     (let network = network\<lparr>lines :=
            map (\<lambda>l. l\<lparr>ln_v_nom := join_v_nom network (ln_bus0 l)\<rparr>) (lines network)\<rparr>;
          network = network\<lparr>shunt_impedances :=
            map (\<lambda>s. s\<lparr>sh_v_nom := join_v_nom network (sh_bus s)\<rparr>) (shunt_impedances network)\<rparr>;
          network = network\<lparr>lines :=
            map (\<lambda>l. l\<lparr>ln_x_pu := div_sq (ln_x l) (ln_v_nom l)\<rparr>) (lines network)\<rparr>;
          network = network\<lparr>lines :=
            map (\<lambda>l. l\<lparr>ln_r_pu := div_sq (ln_r l) (ln_v_nom l)\<rparr>) (lines network)\<rparr>;
          network = network\<lparr>lines :=
            map (\<lambda>l. l\<lparr>ln_b_pu := mul_sq (ln_b l) (ln_v_nom l)\<rparr>) (lines network)\<rparr>;
          network = network\<lparr>lines :=
            map (\<lambda>l. l\<lparr>ln_g_pu := mul_sq (ln_g l) (ln_v_nom l)\<rparr>) (lines network)\<rparr>;
          network = network\<lparr>transformers :=
            map (\<lambda>t. t\<lparr>tr_x_pu := div_float (tr_x t) (tr_s_nom t)\<rparr>) (transformers network)\<rparr>;
          network = network\<lparr>transformers :=
            map (\<lambda>t. t\<lparr>tr_r_pu := div_float (tr_r t) (tr_s_nom t)\<rparr>) (transformers network)\<rparr>;
          network = network\<lparr>transformers :=
            map (\<lambda>t. t\<lparr>tr_b_pu := tr_b t * tr_s_nom t\<rparr>) (transformers network)\<rparr>;
          network = network\<lparr>transformers :=
            map (\<lambda>t. t\<lparr>tr_g_pu := tr_g t * tr_s_nom t\<rparr>) (transformers network)\<rparr>;
          network = network\<lparr>shunt_impedances :=
            map (\<lambda>s. s\<lparr>sh_b_pu := mul_sq (sh_b s) (sh_v_nom s)\<rparr>) (shunt_impedances network)\<rparr>;
          network = network\<lparr>shunt_impedances :=
            map (\<lambda>s. s\<lparr>sh_g_pu := mul_sq (sh_g s) (sh_v_nom s)\<rparr>) (shunt_impedances network)\<rparr>
      in network\<lparr>dependent_values_calculated := True\<rparr>)"

subsection \<open>Idempotence\<close>

text \<open>
  Claim C6. Calling \<open>calculate_dependent_values\<close> twice in succession gives the same
  network as calling it once: the per-unit columns of lines, transformers and shunt
  impedances and the \<open>v_nom\<close> columns copied onto lines and shunt impedances are unchanged
  by the second call.
\<close>

theorem calculate_dependent_values_idempotent:
  "calculate_dependent_values (calculate_dependent_values network) =
   calculate_dependent_values network"
  by (simp add: calculate_dependent_values_def Let_def join_v_nom_def o_def)

section \<open>Adding a component (components.py, Network.add)\<close>

text \<open>
  \<open>Network.add\<close> works on any component table by the names of its columns, so here a table
  is a DataFrame as such: its column labels and its rows in index order, a row being the
  cells by column. A cell holds nan, the component object (by class and name) or a value.
  A series table has one column per component; \<open>add\<close> fills a whole column with one value.
\<close>

datatype 'v cell = Nan | Obj string name | Val 'v

record 'v dataframe =
  df_columns :: "string list"
  df_rows :: "(name \<times> (string \<times> 'v cell) list) list"

text \<open>
  The attributes of the network that \<open>add\<close> touches: the component tables by list name,
  the series tables by list name and attribute, and the two descriptor dictionaries built
  by \<open>__init__\<close> (the default of each simple column, and the series attributes with their
  defaults in the order of iteration).
\<close>

record 'v tables =
  component_df :: "string \<Rightarrow> 'v dataframe"
  series_df :: "string \<Rightarrow> string \<Rightarrow> (name \<times> 'v) list"
  component_simple_descriptors :: "string \<Rightarrow> string \<rightharpoonup> 'v"
  component_series_descriptors :: "string \<Rightarrow> (string \<times> 'v) list"

text \<open>
  \<open>globals()[class_name]\<close> followed by \<open>cls.list_name\<close>. The globals of components.py are
  the classes it defines, the names it imports, its three string constants and the
  attributes that every module has. The classes with a table of their own give its list
  name. Every other global has no \<open>list_name\<close> (AttributeError), except Branch, whose list
  name is a property that builds a new frame at each access; that path is not followed. A
  name that is not a global is not found.
\<close>

definition module_globals :: "string list" where
  "module_globals =
     [''print_function'', ''division'', ''__version__'', ''__author__'', ''__copyright__'',
      ''StrictVersion'', ''nx'', ''np'', ''pd'', ''chain'', ''itemgetter'', ''Float'', ''String'',
      ''Series'', ''GraphDesc'', ''OrderedGraph'', ''Integer'', ''Boolean'',
      ''get_simple_descriptors'', ''get_series_descriptors'', ''export_to_csv_folder'',
      ''import_from_csv_folder'', ''import_from_pypower_ppc'', ''inspect'', ''sys'',
      ''__name__'', ''__doc__'', ''__file__'', ''__package__'', ''__builtins__'']"

datatype class_lookup = NotFound | NoListName | BranchProperty | Component string

definition lookup_class :: "string \<Rightarrow> class_lookup" where
  "lookup_class class_name =
     (case map_of
        [(''Source'', ''sources''), (''Bus'', ''buses''), (''Generator'', ''generators''),
         (''StorageUnit'', ''storage_units''), (''Load'', ''loads''),
         (''ShuntImpedance'', ''shunt_impedances''), (''Line'', ''lines''),
         (''Transformer'', ''transformers''), (''Converter'', ''converters''),
         (''TransportLink'', ''transport_links''), (''SubNetwork'', ''sub_networks'')] class_name of
        Some list_name \<Rightarrow> Component list_name
      | None \<Rightarrow>
          if class_name = ''Branch'' then BranchProperty
          else if class_name \<in> set [''Basic'', ''Common'', ''SubStation'', ''Region'', ''OnePort'',
                 ''ThreePort'', ''ThreeTransformer'', ''LineType'', ''Network'']
                  \<or> class_name \<in> set module_globals
          then NoListName else NotFound)"

definition df_index :: "'v dataframe \<Rightarrow> name list" where
  "df_index d = map fst (df_rows d)"

text \<open>Writing one cell of a row; a column that the row does not have yet is appended.\<close>

fun set_col :: "string \<Rightarrow> 'v cell \<Rightarrow> (string \<times> 'v cell) list \<Rightarrow> (string \<times> 'v cell) list" where
  "set_col c v [] = [(c, v)]"
| "set_col c v ((k, w) # r) = (if k = c then (k, v) # r else (k, w) # set_col c v r)"

text \<open>
  \<open>df.loc[name, col] = v\<close>: setting with enlargement. A new column label is added to the
  columns (nan in every row), a new row label is appended to the index (nan in every
  column), then the cell is written.
\<close>

definition loc_set :: "name \<Rightarrow> string \<Rightarrow> 'v cell \<Rightarrow> 'v dataframe \<Rightarrow> 'v dataframe" where
  "loc_set n c v d =
     (let d = (if c \<in> set (df_columns d) then d
               else d\<lparr>df_columns := df_columns d @ [c],
                      df_rows := map (\<lambda>(k, r). (k, set_col c Nan r)) (df_rows d)\<rparr>);
          d = (if n \<in> set (df_index d) then d
               else d\<lparr>df_rows := df_rows d @ [(n, map (\<lambda>k. (k, Nan)) (df_columns d))]\<rparr>)
      in d\<lparr>df_rows := map (\<lambda>(k, r). if k = n then (k, set_col c v r) else (k, r)) (df_rows d)\<rparr>)"

text \<open>The loop over the columns: every column but \<open>obj\<close> gets the default of its descriptor.\<close>

fun set_defaults ::
  "(string \<rightharpoonup> 'v) \<Rightarrow> name \<Rightarrow> string list \<Rightarrow> 'v dataframe \<Rightarrow> error + 'v dataframe" where
  "set_defaults descr n [] d = Inr d"
| "set_defaults descr n (col # cols) d =
     (if col \<in> set [''obj''] then set_defaults descr n cols d
      else (case descr col of
              None \<Rightarrow> Inl KeyError
            | Some v \<Rightarrow> set_defaults descr n cols (loc_set n col (Val v) d)))"

text \<open>\<open>series_df[name] = default\<close>: the column of that name, appended when it is new.\<close>

fun set_series_col :: "name \<Rightarrow> 'v \<Rightarrow> (name \<times> 'v) list \<Rightarrow> (name \<times> 'v) list" where
  "set_series_col n v [] = [(n, v)]"
| "set_series_col n v ((k, w) # r) = (if k = n then (k, v) # r else (k, w) # set_series_col n v r)"

fun set_series_defaults :: "string \<Rightarrow> name \<Rightarrow> (string \<times> 'v) list \<Rightarrow> 'v tables \<Rightarrow> 'v tables" where
  "set_series_defaults list_name n [] t = t"
| "set_series_defaults list_name n ((k, v) # ds) t =
     set_series_defaults list_name n ds
       (t\<lparr>series_df := (series_df t)(list_name := (series_df t list_name)
             (k := set_series_col n v (series_df t list_name k)))\<rparr>)"

text \<open>
  The keyword arguments are set on the new object one by one with \<open>setattr\<close>, which goes
  through the descriptors of descriptors.py; it is a parameter: from the class, the name of
  the object, the key and the value to the new tables, or to an exception.
\<close>

fun set_kwargs ::
  "(string \<Rightarrow> name \<Rightarrow> string \<Rightarrow> 'v \<Rightarrow> 'v tables \<Rightarrow> error + 'v tables) \<Rightarrow>
   string \<Rightarrow> name \<Rightarrow> (string \<times> 'v) list \<Rightarrow> 'v tables \<Rightarrow> error + 'v tables" where
  "set_kwargs setattr cls n [] t = Inr t"
| "set_kwargs setattr cls n ((key, val) # kwargs) t =
     (case setattr cls n key val t of
        Inl e \<Rightarrow> Inl e
      | Inr t' \<Rightarrow> set_kwargs setattr cls n kwargs t')"

text \<open>
  \<open>add\<close> returns the tables as it leaves them and the new object (class and name), or
  \<open>None\<close> where the Python returns without an object.
\<close>

definition add ::
  "(string \<Rightarrow> name \<Rightarrow> string \<Rightarrow> 'v \<Rightarrow> 'v tables \<Rightarrow> error + 'v tables) \<Rightarrow>
   'v tables \<Rightarrow> string \<Rightarrow> name \<Rightarrow> (string \<times> 'v) list \<Rightarrow>
   error + ('v tables \<times> (string \<times> name) option)" where
  "add setattr self class_name n kwargs =
     (case lookup_class class_name of
        NotFound \<Rightarrow> Inr (self, None)
      | NoListName \<Rightarrow> Inl AttributeError
      | BranchProperty \<Rightarrow> Inl Unmodelled
      | Component list_name \<Rightarrow>
          (let cls_df = component_df self list_name in
           if n \<in> set (df_index cls_df) then Inr (self, None)
           else
             (let cls_df = loc_set n ''obj'' (Obj class_name n) cls_df in
              case set_defaults (component_simple_descriptors self list_name) n
                     (df_columns cls_df) cls_df of
                Inl e \<Rightarrow> Inl e
              | Inr cls_df \<Rightarrow>
                  (let self = self\<lparr>component_df := (component_df self)(list_name := cls_df)\<rparr>;
                       self = set_series_defaults list_name n
                                (component_series_descriptors self list_name) self
                   in case set_kwargs setattr class_name n kwargs self of
                        Inl e \<Rightarrow> Inl e
                      | Inr self \<Rightarrow> Inr (self, Some (class_name, n))))))"

subsection \<open>The row that add appends\<close>















subsection \<open>A table with a column that the class does not declare\<close>



section \<open>Branch tables and matrices\<close>

text \<open>
  \<open>network.branches\<close> and \<open>SubNetwork.branches\<close>. Converters and transport links have no
  \<open>sub_network\<close> column, so their rows never pass the filter of a sub-network.
\<close>

definition line_branch :: "line \<Rightarrow> branch" where
  "line_branch l =
     \<lparr>br_type = ''Line'', br_name = ln_name l, br_bus0 = ln_bus0 l, br_bus1 = ln_bus1 l,
      br_r_pu = ln_r_pu l, br_x_pu = ln_x_pu l, br_g_pu = ln_g_pu l, br_b_pu = ln_b_pu l,
      br_tap_ratio = None, br_phase_shift = None, br_sub_network = Some (ln_sub_network l)\<rparr>"

definition transformer_branch :: "transformer \<Rightarrow> branch" where
  "transformer_branch t =
     \<lparr>br_type = ''Transformer'', br_name = tr_name t, br_bus0 = tr_bus0 t, br_bus1 = tr_bus1 t,
      br_r_pu = tr_r_pu t, br_x_pu = tr_x_pu t, br_g_pu = Some (tr_g_pu t),
      br_b_pu = Some (tr_b_pu t), br_tap_ratio = tr_tap_ratio t,
      br_phase_shift = tr_phase_shift t, br_sub_network = Some (tr_sub_network t)\<rparr>"

definition controllable_branch :: "string \<Rightarrow> controllable \<Rightarrow> branch" where
  "controllable_branch ty c =
     \<lparr>br_type = ty, br_name = cb_name c, br_bus0 = cb_bus0 c, br_bus1 = cb_bus1 c,
      br_r_pu = None, br_x_pu = None, br_g_pu = None, br_b_pu = None,
      br_tap_ratio = None, br_phase_shift = None, br_sub_network = None\<rparr>"

definition branches :: "network \<Rightarrow> branch list" where
  "branches network =
     map line_branch (lines network) @ map transformer_branch (transformers network) @
     map (controllable_branch ''Converter'') (converters network) @
     map (controllable_branch ''TransportLink'') (transport_links network)"

definition sn_branches :: "network \<Rightarrow> sub_network \<Rightarrow> branch list" where
  "sn_branches network sub_network =
     filter (\<lambda>b. br_sub_network b = Some (sn_name sub_network)) (branches network)"

text \<open>
  Matrices are lists of rows. \<open>csr_matrix((data, (rows, cols)), (m, n))\<close> sums the entries
  that share a position. Product, transpose and sum are those of scipy.
\<close>

definition csr_matrix :: "('a::comm_ring_1 \<times> nat \<times> nat) list \<Rightarrow> nat \<Rightarrow> nat \<Rightarrow> 'a list list" where
  "csr_matrix entries m n =
     map (\<lambda>i. map (\<lambda>j. sum_list (map fst (filter (\<lambda>(v, r, c). r = i \<and> c = j) entries))) [0..<n])
       [0..<m]"

definition mat_T :: "nat \<Rightarrow> nat \<Rightarrow> 'a list list \<Rightarrow> 'a list list" where
  "mat_T m n A = map (\<lambda>j. map (\<lambda>i. A ! i ! j) [0..<m]) [0..<n]"

definition mat_mul :: "nat \<Rightarrow> nat \<Rightarrow> 'a::comm_ring_1 list list \<Rightarrow> 'a list list \<Rightarrow> 'a list list" where
  "mat_mul q r A B = map (\<lambda>row. map (\<lambda>j. (\<Sum>k\<leftarrow>[0..<q]. row ! k * B ! k ! j)) [0..<r]) A"

definition mat_add :: "'a::comm_ring_1 list list \<Rightarrow> 'a list list \<Rightarrow> 'a list list" where
  "mat_add A B = map2 (map2 (+)) A B"

text \<open>Reading a float that the arithmetic needs as a number.\<close>

definition num :: "real option \<Rightarrow> error + real" where
  "num v = (case v of None \<Rightarrow> Inl NotANumber | Some x \<Rightarrow> Inr x)"

fun emap :: "('a \<Rightarrow> error + 'b) \<Rightarrow> 'a list \<Rightarrow> error + 'b list" where
  "emap f [] = Inr []"
| "emap f (x # xs) =
     (case f x of
        Inl e \<Rightarrow> Inl e
      | Inr y \<Rightarrow> (case emap f xs of Inl e \<Rightarrow> Inl e | Inr ys \<Rightarrow> Inr (y # ys)))"

text \<open>The column \<open>i\<close> of \<open>buses_o\<close> for a bus name: the position of its row.\<close>

fun bus_i :: "bus list \<Rightarrow> name \<Rightarrow> nat option" where
  "bus_i [] b = None"
| "bus_i (r # rs) b = (if b_name r = b then Some 0 else map_option Suc (bus_i rs b))"

section \<open>Bus admittance matrix (pf.py, calculate\_Y)\<close>

text \<open>
  \<open>tau = branches["tap_ratio"].fillna(1.)\<close> followed by \<open>tau[tau==0] = 1.\<close>, and
  \<open>np.exp(1.j*branches["phase_shift"].fillna(0.)*np.pi/180.)\<close>.
\<close>

definition tau_of :: "real option \<Rightarrow> real" where
  "tau_of tap_ratio =
     (let tau = (case tap_ratio of None \<Rightarrow> 1 | Some t \<Rightarrow> t) in if tau = 0 then 1 else tau)"

definition phase_shift_of :: "real option \<Rightarrow> complex" where
  "phase_shift_of ps =
     exp (\<i> * of_real (case ps of None \<Rightarrow> 0 | Some p \<Rightarrow> p) * of_real pi / 180)"

text \<open>The admittance matrix elements of one branch, in the order Y00, Y01, Y10, Y11.\<close>

definition branch_elements :: "branch \<Rightarrow> error + (complex \<times> complex \<times> complex \<times> complex)" where
  "branch_elements b =
     (case (br_r_pu b, br_x_pu b, br_g_pu b, br_b_pu b) of
        (Some r_pu, Some x_pu, Some g_pu, Some b_pu) \<Rightarrow>
          if r_pu = 0 \<and> x_pu = 0 then Inl NotANumber
          else
          (let y_se = 1 / (of_real r_pu + \<i> * of_real x_pu);
               y_sh = of_real g_pu + \<i> * of_real b_pu;
               tau = tau_of (br_tap_ratio b);
               phase_shift = phase_shift_of (br_phase_shift b);
               Y11 = y_se + 0.5 * y_sh;
               Y01 = - y_se / of_real tau / phase_shift;
               Y10 = - y_se / of_real tau / cnj phase_shift;
               Y00 = Y11 / of_real (tau ^ 2)
           in Inr (Y00, Y01, Y10, Y11))
      | _ \<Rightarrow> Inl NotANumber)"

text \<open>The summed shunt admittance at a bus.\<close>

definition shunt_admittance :: "shunt_impedance \<Rightarrow> error + complex" where
  "shunt_admittance sh =
     (case (sh_g_pu sh, sh_b_pu sh) of
        (Some g_pu, Some b_pu) \<Rightarrow> Inr (of_real g_pu + \<i> * of_real b_pu)
      | _ \<Rightarrow> Inl NotANumber)"

definition bus_Y_sh :: "network \<Rightarrow> bus \<Rightarrow> error + complex" where
  "bus_Y_sh network bus =
     (case emap shunt_admittance (bus_shunt_impedances network (b_name bus)) of
        Inl e \<Rightarrow> Inl e
      | Inr ys \<Rightarrow> Inr (sum_list ys))"

text \<open>
  The join of the branches with \<open>buses_o\<close> on an end bus gives the column \<open>i\<close>; a branch
  whose bus is not in \<open>buses_o\<close> has no index there, and building the sparse matrix fails.
  The diagonal matrix of the bus shunts is built without a shape, which scipy infers from
  the indices and cannot infer when there are none.
\<close>

definition branch_bus_indices :: "bus list \<Rightarrow> branch \<Rightarrow> error + (nat \<times> nat)" where
  "branch_bus_indices bs b =
     (case (bus_i bs (br_bus0 b), bus_i bs (br_bus1 b)) of
        (Some i0, Some i1) \<Rightarrow> Inr (i0, i1)
      | _ \<Rightarrow> Inl ValueError)"

definition calculate_Y :: "network \<Rightarrow> sub_network \<Rightarrow> error + sub_network" where
  "calculate_Y network sub_network =
     (if sn_current_type sub_network = ''DC'' then Inr sub_network
      else
        (let brs = sn_branches network sub_network;
             bs = buses_o sub_network;
             num_branches = length brs;
             num_buses = length bs
         in case emap branch_elements brs of
              Inl e \<Rightarrow> Inl e
            | Inr Ys \<Rightarrow>
          (case emap (bus_Y_sh network) bs of
              Inl e \<Rightarrow> Inl e
            | Inr Y_sh \<Rightarrow>
          (case emap (branch_bus_indices bs) brs of
              Inl e \<Rightarrow> Inl e
            | Inr idx \<Rightarrow>
             (let bus0 = map fst idx;
                  bus1 = map snd idx;
                  Y00 = map (\<lambda>(Y00, Y01, Y10, Y11). Y00) Ys;
                  Y01 = map (\<lambda>(Y00, Y01, Y10, Y11). Y01) Ys;
                  Y10 = map (\<lambda>(Y00, Y01, Y10, Y11). Y10) Ys;
                  Y11 = map (\<lambda>(Y00, Y01, Y10, Y11). Y11) Ys;
                  rng = [0..<num_branches];
                  C0 = csr_matrix (zip (replicate num_branches 1) (zip rng bus0))
                         num_branches num_buses;
                  C1 = csr_matrix (zip (replicate num_branches 1) (zip rng bus1))
                         num_branches num_buses;
                  i = rng @ rng;
                  Y0 = csr_matrix (zip (Y00 @ Y01) (zip i (bus0 @ bus1))) num_branches num_buses;
                  Y1 = csr_matrix (zip (Y10 @ Y11) (zip i (bus0 @ bus1))) num_branches num_buses
              in if num_buses = 0 then Inl ValueError
                 else
                   (let D = csr_matrix (zip Y_sh (zip [0..<num_buses] [0..<num_buses]))
                              num_buses num_buses;
                        Y = mat_add
                              (mat_add
                                 (mat_mul num_branches num_buses (mat_T num_branches num_buses C0) Y0)
                                 (mat_mul num_branches num_buses (mat_T num_branches num_buses C1) Y1))
                              D
                    in Inr (sub_network\<lparr>sn_Y := Y, sn_Y0 := Y0, sn_Y1 := Y1\<rparr>)))))))"

subsection \<open>Entries of the matrices\<close>

lemma emap_Inr:
  "\<forall>x \<in> set xs. f x = Inr (g x) \<Longrightarrow> emap f xs = Inr (map g xs)"
  by (induction xs) auto

lemma csr_matrix_nth:
  "i < m \<Longrightarrow> j < n \<Longrightarrow>
   csr_matrix es m n ! i ! j = sum_list (map fst (filter (\<lambda>(v, r, c). r = i \<and> c = j) es))"
  by (simp add: csr_matrix_def)

lemma zip_as_map:
  assumes "length vals = nb" and "length cols = nb"
  shows "zip vals (zip [0..<nb] cols) = map (\<lambda>t. (vals ! t, t, cols ! t)) [0..<nb]"
  using assms by (intro nth_equalityI) auto

lemma sum_entries:
  fixes vals :: "'a::comm_ring_1 list"
  assumes "length vals = nb" and "length cols = nb"
  shows "sum_list (map fst (filter (\<lambda>(v, r, c). r = k \<and> c = j) (zip vals (zip [0..<nb] cols))))
       = (if k < nb \<and> cols ! k = j then vals ! k else 0)"
proof -
  have "sum_list (map fst (filter (\<lambda>(v, r, c). r = k \<and> c = j) (zip vals (zip [0..<nb] cols))))
      = sum_list (map (\<lambda>t. if t = k \<and> cols ! t = j then vals ! t else 0) [0..<nb])"
    unfolding zip_as_map[OF assms]
    by (simp add: filter_map o_def sum_list_map_filter' cong: map_cong)
  also have "\<dots> = (\<Sum>t\<in>{0..<nb}. if t = k \<and> cols ! t = j then vals ! t else 0)"
    by (simp add: interv_sum_list_conv_sum_set_nat)
  also have "\<dots> = (\<Sum>t\<in>{0..<nb}. if k = t then (if cols ! k = j then vals ! k else 0) else 0)"
    by (intro sum.cong) auto
  also have "\<dots> = (if k < nb \<and> cols ! k = j then vals ! k else 0)"
    by (simp add: sum.delta)
  finally show ?thesis .
qed

lemma sum_entries2:
  fixes A B :: "'a::comm_ring_1 list"
  assumes "length A = nb" "length B = nb" "length c0 = nb" "length c1 = nb" "k < nb"
  shows "sum_list (map fst (filter (\<lambda>(v, r, c). r = k \<and> c = j)
            (zip (A @ B) (zip ([0..<nb] @ [0..<nb]) (c0 @ c1)))))
       = (if c0 ! k = j then A ! k else 0) + (if c1 ! k = j then B ! k else 0)"
proof -
  have "zip (A @ B) (zip ([0..<nb] @ [0..<nb]) (c0 @ c1))
      = zip A (zip [0..<nb] c0) @ zip B (zip [0..<nb] c1)"
    using assms by simp
  then show ?thesis
    using sum_entries[OF assms(1,3), of k j] sum_entries[OF assms(2,4), of k j] assms(5)
    by simp
qed

lemma mat_mul_T_nth:
  "i < p \<Longrightarrow> j < r \<Longrightarrow>
   mat_mul q r (mat_T q p C) B ! i ! j = (\<Sum>k\<leftarrow>[0..<q]. C ! k ! i * B ! k ! j)"
proof -
  assume ij: "i < p" "j < r"
  have e: "(\<Sum>k\<leftarrow>[0..<q]. map (\<lambda>x. C ! x ! i) [0..<q] ! k * B ! k ! j)
      = (\<Sum>k\<leftarrow>[0..<q]. C ! k ! i * B ! k ! j)"
    by (rule arg_cong[where f=sum_list], rule map_cong) auto
  show ?thesis using ij by (simp add: mat_mul_def mat_T_def e)
qed

lemma mat_add_nth:
  "i < length A \<Longrightarrow> i < length B \<Longrightarrow> j < length (A ! i) \<Longrightarrow> j < length (B ! i) \<Longrightarrow>
   mat_add A B ! i ! j = A ! i ! j + B ! i ! j"
  by (simp add: mat_add_def)

lemma csr_dims:
  "length (csr_matrix es m n) = m" "i < m \<Longrightarrow> length (csr_matrix es m n ! i) = n"
  by (simp_all add: csr_matrix_def)

lemma mat_mul_T_dims:
  "length (mat_mul q r (mat_T q p C) B) = p"
  "i < p \<Longrightarrow> length (mat_mul q r (mat_T q p C) B ! i) = r"
  by (simp_all add: mat_mul_def mat_T_def)

lemma mat_add_dims:
  "length (mat_add A B) = min (length A) (length B)"
  "i < length A \<Longrightarrow> i < length B \<Longrightarrow> length (mat_add A B ! i) = min (length (A ! i)) (length (B ! i))"
  by (simp_all add: mat_add_def)

subsection \<open>The elements and the assembly as the specification words them\<close>

text \<open>
  Per branch: \<open>y_se = 1/(r_pu + j x_pu)\<close>, \<open>y_sh = g_pu + j b_pu\<close>, \<open>\<tau>\<close> the tap ratio with
  a missing or zero value replaced by 1, \<open>\<phi> = exp(j phase_shift \<pi>/180)\<close> with a missing phase
  shift as 0, and \<open>Y11 = y_se + y_sh/2\<close>, \<open>Y00 = Y11/\<tau>\<^sup>2\<close>, \<open>Y01 = -y_se/(\<tau> \<phi>)\<close>,
  \<open>Y10 = -y_se/(\<tau> conj(\<phi>))\<close>. The result is in the order Y00, Y01, Y10, Y11.
\<close>

definition spec_elements ::
  "real \<Rightarrow> real \<Rightarrow> real \<Rightarrow> real \<Rightarrow> real option \<Rightarrow> real option \<Rightarrow>
   complex \<times> complex \<times> complex \<times> complex" where
  "spec_elements r_pu x_pu g_pu b_pu tap_ratio phase_shift =
     (let y_se = 1 / Complex r_pu x_pu;
          y_sh = Complex g_pu b_pu;
          \<tau> = (case tap_ratio of None \<Rightarrow> 1 | Some t \<Rightarrow> if t = 0 then 1 else t);
          \<phi> = exp (\<i> * of_real ((case phase_shift of None \<Rightarrow> 0 | Some p \<Rightarrow> p) * pi / 180));
          Y11 = y_se + y_sh / 2
      in (Y11 / (of_real \<tau>)\<^sup>2, - y_se / (of_real \<tau> * \<phi>), - y_se / (of_real \<tau> * cnj \<phi>), Y11))"

definition spec_branch_elements :: "branch \<Rightarrow> complex \<times> complex \<times> complex \<times> complex" where
  "spec_branch_elements b =
     spec_elements (the (br_r_pu b)) (the (br_x_pu b)) (the (br_g_pu b)) (the (br_b_pu b))
       (br_tap_ratio b) (br_phase_shift b)"

text \<open>The summed shunt admittance \<open>g_pu + j b_pu\<close> of the shunt impedances at a bus.\<close>

definition spec_Y_sh :: "network \<Rightarrow> bus \<Rightarrow> complex" where
  "spec_Y_sh network bus =
     (\<Sum>sh\<leftarrow>bus_shunt_impedances network (b_name bus). Complex (the (sh_g_pu sh)) (the (sh_b_pu sh)))"

text \<open>The positions in \<open>buses_o\<close> of the two end buses of a branch.\<close>

definition end0 :: "sub_network \<Rightarrow> branch \<Rightarrow> nat" where
  "end0 sub_network b = the (bus_i (buses_o sub_network) (br_bus0 b))"

definition end1 :: "sub_network \<Rightarrow> branch \<Rightarrow> nat" where
  "end1 sub_network b = the (bus_i (buses_o sub_network) (br_bus1 b))"

lemma branch_elements_spec:
  assumes "br_r_pu b \<noteq> None" "br_x_pu b \<noteq> None" "br_g_pu b \<noteq> None" "br_b_pu b \<noteq> None"
      and "Complex (the (br_r_pu b)) (the (br_x_pu b)) \<noteq> 0"
  shows "branch_elements b = Inr (spec_branch_elements b)"
proof -
  obtain r x g bb where v: "br_r_pu b = Some r" "br_x_pu b = Some x" "br_g_pu b = Some g"
    "br_b_pu b = Some bb" using assms by auto
  have nz: "\<not> (r = 0 \<and> x = 0)" using assms(5) v by (auto simp: zero_complex.code)
  have c: "of_real r + \<i> * of_real x = Complex r x" "of_real g + \<i> * of_real bb = Complex g bb"
    by (simp_all add: Complex_eq)
  have t: "tau_of (br_tap_ratio b) = (case br_tap_ratio b of None \<Rightarrow> 1 | Some t \<Rightarrow> if t = 0 then 1 else t)"
    by (simp add: tau_of_def split: option.splits)
  have p: "phase_shift_of (br_phase_shift b) =
        exp (\<i> * of_real ((case br_phase_shift b of None \<Rightarrow> 0 | Some p \<Rightarrow> p) * pi / 180))"
    by (simp add: phase_shift_of_def mult.assoc)
  show ?thesis
    unfolding branch_elements_def spec_branch_elements_def spec_elements_def v t p Let_def
    using nz by (simp add: divide_divide_eq_left c)
qed

lemma bus_Y_sh_spec:
  assumes "\<forall>sh \<in> set (bus_shunt_impedances network (b_name bus)). sh_g_pu sh \<noteq> None \<and> sh_b_pu sh \<noteq> None"
  shows "bus_Y_sh network bus = Inr (spec_Y_sh network bus)"
proof -
  have "\<forall>sh \<in> set (bus_shunt_impedances network (b_name bus)).
      shunt_admittance sh = Inr (Complex (the (sh_g_pu sh)) (the (sh_b_pu sh)))"
    using assms by (auto simp: shunt_admittance_def Complex_eq)
  from emap_Inr[OF this] show ?thesis by (simp add: bus_Y_sh_def spec_Y_sh_def)
qed

lemma branch_bus_indices_ends:
  assumes "bus_i (buses_o sub_network) (br_bus0 b) \<noteq> None" "bus_i (buses_o sub_network) (br_bus1 b) \<noteq> None"
  shows "branch_bus_indices (buses_o sub_network) b = Inr (end0 sub_network b, end1 sub_network b)"
  using assms by (auto simp: branch_bus_indices_def end0_def end1_def)

text \<open>
  The matrices of the specification, entry by entry: \<open>Y0\<close> has \<open>Y00\<close> and \<open>Y01\<close> of a branch
  in its row at the columns of the two end buses and \<open>Y1\<close> has \<open>Y10\<close> and \<open>Y11\<close> there, \<open>C0\<close>
  and \<open>C1\<close> are the incidence matrices of the two ends, and
  \<open>Y = C0\<^sup>T Y0 + C1\<^sup>T Y1 + diag(bus shunts)\<close>.
\<close>

definition spec_Y0 :: "network \<Rightarrow> sub_network \<Rightarrow> nat \<Rightarrow> nat \<Rightarrow> complex" where
  "spec_Y0 network sub_network k j =
     (let b = sn_branches network sub_network ! k in
      case spec_branch_elements b of (Y00, Y01, Y10, Y11) \<Rightarrow>
        (if end0 sub_network b = j then Y00 else 0) + (if end1 sub_network b = j then Y01 else 0))"

definition spec_Y1 :: "network \<Rightarrow> sub_network \<Rightarrow> nat \<Rightarrow> nat \<Rightarrow> complex" where
  "spec_Y1 network sub_network k j =
     (let b = sn_branches network sub_network ! k in
      case spec_branch_elements b of (Y00, Y01, Y10, Y11) \<Rightarrow>
        (if end0 sub_network b = j then Y10 else 0) + (if end1 sub_network b = j then Y11 else 0))"

definition spec_C0 :: "network \<Rightarrow> sub_network \<Rightarrow> nat \<Rightarrow> nat \<Rightarrow> complex" where
  "spec_C0 network sub_network k i =
     (if end0 sub_network (sn_branches network sub_network ! k) = i then 1 else 0)"

definition spec_C1 :: "network \<Rightarrow> sub_network \<Rightarrow> nat \<Rightarrow> nat \<Rightarrow> complex" where
  "spec_C1 network sub_network k i =
     (if end1 sub_network (sn_branches network sub_network ! k) = i then 1 else 0)"

definition spec_Y :: "network \<Rightarrow> sub_network \<Rightarrow> nat \<Rightarrow> nat \<Rightarrow> complex" where
  "spec_Y network sub_network i j =
     (\<Sum>k\<leftarrow>[0..<length (sn_branches network sub_network)].
        spec_C0 network sub_network k i * spec_Y0 network sub_network k j)
   + (\<Sum>k\<leftarrow>[0..<length (sn_branches network sub_network)].
        spec_C1 network sub_network k i * spec_Y1 network sub_network k j)
   + (if i = j then spec_Y_sh network (buses_o sub_network ! i) else 0)"

text \<open>
  Claim C8. For an AC sub-network, \<open>calculate_Y\<close> computes the elements of every branch by
  the formulas of the specification and assembles \<open>Y0\<close>, \<open>Y1\<close> and
  \<open>Y = C0\<^sup>T Y0 + C1\<^sup>T Y1\<close> plus the diagonal of the summed bus shunt admittances. The
  per-unit values of the branches and shunts are numbers (not nan), no branch has the
  series impedance \<open>r_pu + j x_pu = 0\<close> (whose inverse is not a number), the end buses of the
  branches are in \<open>buses_o\<close>, and \<open>buses_o\<close> is not empty.
\<close>

theorem calculate_Y_assembles:
  assumes "sn_current_type sub_network = ''AC''"
    and "buses_o sub_network \<noteq> []"
    and "\<forall>b \<in> set (sn_branches network sub_network).
           br_r_pu b \<noteq> None \<and> br_x_pu b \<noteq> None \<and> br_g_pu b \<noteq> None \<and> br_b_pu b \<noteq> None
           \<and> Complex (the (br_r_pu b)) (the (br_x_pu b)) \<noteq> 0
           \<and> bus_i (buses_o sub_network) (br_bus0 b) \<noteq> None
           \<and> bus_i (buses_o sub_network) (br_bus1 b) \<noteq> None"
    and "\<forall>bus \<in> set (buses_o sub_network).
           \<forall>sh \<in> set (bus_shunt_impedances network (b_name bus)).
             sh_g_pu sh \<noteq> None \<and> sh_b_pu sh \<noteq> None"
  shows "\<exists>Y Y0 Y1.
           calculate_Y network sub_network = Inr (sub_network\<lparr>sn_Y := Y, sn_Y0 := Y0, sn_Y1 := Y1\<rparr>)
         \<and> (\<forall>k j. k < length (sn_branches network sub_network) \<and> j < length (buses_o sub_network) \<longrightarrow>
               Y0 ! k ! j = spec_Y0 network sub_network k j
             \<and> Y1 ! k ! j = spec_Y1 network sub_network k j)
         \<and> (\<forall>i j. i < length (buses_o sub_network) \<and> j < length (buses_o sub_network) \<longrightarrow>
               Y ! i ! j = spec_Y network sub_network i j)"
proof -
  define brs where "brs = sn_branches network sub_network"
  define bs where "bs = buses_o sub_network"
  define nb where "nb = length brs"
  define n where "n = length bs"
  define Ys where "Ys = map spec_branch_elements brs"
  define b0 where "b0 = map (end0 sub_network) brs"
  define b1 where "b1 = map (end1 sub_network) brs"
  define Y00 where "Y00 = map (\<lambda>(Y00, Y01, Y10, Y11). Y00) Ys"
  define Y01 where "Y01 = map (\<lambda>(Y00, Y01, Y10, Y11). Y01) Ys"
  define Y10 where "Y10 = map (\<lambda>(Y00, Y01, Y10, Y11). Y10) Ys"
  define Y11 where "Y11 = map (\<lambda>(Y00, Y01, Y10, Y11). Y11) Ys"
  define Ysh where "Ysh = map (spec_Y_sh network) bs"
  define C0 where "C0 = csr_matrix (zip (replicate nb (1::complex)) (zip [0..<nb] b0)) nb n"
  define C1 where "C1 = csr_matrix (zip (replicate nb (1::complex)) (zip [0..<nb] b1)) nb n"
  define Y0 where "Y0 = csr_matrix (zip (Y00 @ Y01) (zip ([0..<nb] @ [0..<nb]) (b0 @ b1))) nb n"
  define Y1 where "Y1 = csr_matrix (zip (Y10 @ Y11) (zip ([0..<nb] @ [0..<nb]) (b0 @ b1))) nb n"
  define D where "D = csr_matrix (zip Ysh (zip [0..<n] [0..<n])) n n"
  define Y where "Y = mat_add (mat_add (mat_mul nb n (mat_T nb n C0) Y0)
                                         (mat_mul nb n (mat_T nb n C1) Y1)) D"
  have len: "length Ys = nb" "length b0 = nb" "length b1 = nb" "length Y00 = nb" "length Y01 = nb"
    "length Y10 = nb" "length Y11 = nb" "length Ysh = n"
    by (simp_all add: Ys_def b0_def b1_def Y00_def Y01_def Y10_def Y11_def Ysh_def nb_def n_def)
  have n0: "n \<noteq> 0" using assms(2) by (simp add: n_def bs_def)
  have E: "emap branch_elements brs = Inr Ys"
    unfolding Ys_def by (rule emap_Inr) (use assms(3) in \<open>auto simp: brs_def branch_elements_spec\<close>)
  have S: "emap (bus_Y_sh network) bs = Inr Ysh"
    unfolding Ysh_def by (rule emap_Inr) (use assms(4) in \<open>auto simp: bs_def bus_Y_sh_spec\<close>)
  have I: "emap (branch_bus_indices bs) brs = Inr (map (\<lambda>b. (end0 sub_network b, end1 sub_network b)) brs)"
    unfolding bs_def
    by (rule emap_Inr) (use assms(3) in \<open>auto simp: brs_def branch_bus_indices_ends\<close>)
  have res: "calculate_Y network sub_network = Inr (sub_network\<lparr>sn_Y := Y, sn_Y0 := Y0, sn_Y1 := Y1\<rparr>)"
    using assms(1) n0
    unfolding calculate_Y_def brs_def[symmetric] bs_def[symmetric] Let_def nb_def[symmetric]
      n_def[symmetric] E S I
    by (simp add: o_def b0_def[symmetric] b1_def[symmetric] Y00_def[symmetric] Y01_def[symmetric]
        Y10_def[symmetric] Y11_def[symmetric] C0_def[symmetric] C1_def[symmetric]
        Y0_def[symmetric] Y1_def[symmetric] D_def[symmetric] Y_def[symmetric])
  have el: "spec_branch_elements (brs ! k) = (Y00 ! k, Y01 ! k, Y10 ! k, Y11 ! k)" if "k < nb" for k
    using that by (simp add: Y00_def Y01_def Y10_def Y11_def Ys_def nb_def split: prod.splits)
  have ends: "b0 ! k = end0 sub_network (brs ! k)" "b1 ! k = end1 sub_network (brs ! k)" if "k < nb" for k
    using that by (simp_all add: b0_def b1_def nb_def)
  have y0: "Y0 ! k ! j = spec_Y0 network sub_network k j" if "k < nb" "j < n" for k j
    using that sum_entries2[OF len(4,5,2,3) that(1), of j] el[OF that(1)] ends[OF that(1)]
    by (simp add: Y0_def csr_matrix_nth spec_Y0_def brs_def[symmetric] Let_def)
  have y1: "Y1 ! k ! j = spec_Y1 network sub_network k j" if "k < nb" "j < n" for k j
    using that sum_entries2[OF len(6,7,2,3) that(1), of j] el[OF that(1)] ends[OF that(1)]
    by (simp add: Y1_def csr_matrix_nth spec_Y1_def brs_def[symmetric] Let_def)
  have c0: "C0 ! k ! i = spec_C0 network sub_network k i" if "k < nb" "i < n" for k i
    using that sum_entries[OF _ len(2), of "replicate nb (1::complex)" k i] ends[OF that(1)]
    by (simp add: C0_def csr_matrix_nth spec_C0_def brs_def[symmetric])
  have c1: "C1 ! k ! i = spec_C1 network sub_network k i" if "k < nb" "i < n" for k i
    using that sum_entries[OF _ len(3), of "replicate nb (1::complex)" k i] ends[OF that(1)]
    by (simp add: C1_def csr_matrix_nth spec_C1_def brs_def[symmetric])
  have d: "D ! i ! j = (if i = j then spec_Y_sh network (bs ! i) else 0)" if "i < n" "j < n" for i j
    using that sum_entries[OF len(8), of "[0..<n]" i j]
    by (simp add: D_def csr_matrix_nth Ysh_def n_def)
  have y: "Y ! i ! j = spec_Y network sub_network i j" if "i < n" "j < n" for i j
  proof -
    have s0: "(\<Sum>k\<leftarrow>[0..<nb]. C0 ! k ! i * Y0 ! k ! j)
        = (\<Sum>k\<leftarrow>[0..<nb]. spec_C0 network sub_network k i * spec_Y0 network sub_network k j)"
      by (rule arg_cong[where f=sum_list], rule map_cong) (use that c0 y0 in auto)
    have s1: "(\<Sum>k\<leftarrow>[0..<nb]. C1 ! k ! i * Y1 ! k ! j)
        = (\<Sum>k\<leftarrow>[0..<nb]. spec_C1 network sub_network k i * spec_Y1 network sub_network k j)"
      by (rule arg_cong[where f=sum_list], rule map_cong) (use that c1 y1 in auto)
    have "Y ! i ! j = (\<Sum>k\<leftarrow>[0..<nb]. C0 ! k ! i * Y0 ! k ! j)
        + (\<Sum>k\<leftarrow>[0..<nb]. C1 ! k ! i * Y1 ! k ! j) + D ! i ! j"
      unfolding Y_def using that
      by (simp add: mat_add_nth mat_add_dims mat_mul_T_dims mat_mul_T_nth D_def csr_dims)
    then show ?thesis
      using s0 s1 d[OF that] by (simp add: spec_Y_def brs_def[symmetric] nb_def bs_def)
  qed
  show ?thesis
    using res y0 y1 y unfolding brs_def[symmetric] bs_def[symmetric] nb_def[symmetric] n_def[symmetric]
    by blast
qed

text \<open>An example: two buses joined by one line of reactance 1 per unit.\<close>

definition two_bus_line :: network where
  "two_bus_line = new_network
     \<lparr>buses := [new_bus ''b1'' ''0'', new_bus ''b2'' ''0''],
      lines := [\<lparr>ln_name = ''l1'', ln_bus0 = ''b1'', ln_bus1 = ''b2'', ln_s_nom = 0,
                 ln_s_nom_extendable = False, ln_r = 0, ln_x = 1, ln_g = 0, ln_b = 0,
                 ln_x_pu = Some 1, ln_r_pu = Some 0, ln_g_pu = Some 0, ln_b_pu = Some 0,
                 ln_v_nom = Some 1, ln_sub_network = ''0''\<rparr>]\<rparr>"

definition two_bus_sub_network :: sub_network where
  "two_bus_sub_network =
     (new_sub_network ''0'')\<lparr>slack_bus := ''b1'',
        buses_o := [new_bus ''b1'' ''0'', new_bus ''b2'' ''0'']\<rparr>"

theorem calculate_Y_assembles_witness:
  "sn_current_type two_bus_sub_network = ''AC''
   \<and> buses_o two_bus_sub_network \<noteq> []
   \<and> list_all (\<lambda>b. br_r_pu b \<noteq> None \<and> br_x_pu b \<noteq> None \<and> br_g_pu b \<noteq> None \<and> br_b_pu b \<noteq> None
           \<and> Complex (the (br_r_pu b)) (the (br_x_pu b)) \<noteq> 0
           \<and> bus_i (buses_o two_bus_sub_network) (br_bus0 b) \<noteq> None
           \<and> bus_i (buses_o two_bus_sub_network) (br_bus1 b) \<noteq> None)
        (sn_branches two_bus_line two_bus_sub_network)
   \<and> list_all (\<lambda>bus. list_all (\<lambda>sh. sh_g_pu sh \<noteq> None \<and> sh_b_pu sh \<noteq> None)
          (bus_shunt_impedances two_bus_line (b_name bus))) (buses_o two_bus_sub_network)
   \<and> (case calculate_Y two_bus_line two_bus_sub_network of
         Inl e \<Rightarrow> False
       | Inr s \<Rightarrow> sn_Y s ! 0 ! 1 = \<i> \<and> sn_Y s ! 0 ! 0 = - \<i> \<and> sn_Y0 s ! 0 ! 1 = \<i>)"
proof -
  have br: "sn_branches two_bus_line two_bus_sub_network = [line_branch (hd (lines two_bus_line))]"
    by (simp add: sn_branches_def branches_def two_bus_line_def new_network_def
        two_bus_sub_network_def new_sub_network_def line_branch_def)
  have h1: "sn_current_type two_bus_sub_network = ''AC''"
    by (simp add: two_bus_sub_network_def new_sub_network_def)
  have h2: "buses_o two_bus_sub_network \<noteq> []"
    by (simp add: two_bus_sub_network_def)
  have h3: "list_all (\<lambda>b. br_r_pu b \<noteq> None \<and> br_x_pu b \<noteq> None \<and> br_g_pu b \<noteq> None \<and> br_b_pu b \<noteq> None
           \<and> Complex (the (br_r_pu b)) (the (br_x_pu b)) \<noteq> 0
           \<and> bus_i (buses_o two_bus_sub_network) (br_bus0 b) \<noteq> None
           \<and> bus_i (buses_o two_bus_sub_network) (br_bus1 b) \<noteq> None)
        (sn_branches two_bus_line two_bus_sub_network)"
    unfolding br
    by (simp add: two_bus_line_def line_branch_def two_bus_sub_network_def new_bus_def
        complex_eq_iff)
  have h4: "list_all (\<lambda>bus. list_all (\<lambda>sh. sh_g_pu sh \<noteq> None \<and> sh_b_pu sh \<noteq> None)
          (bus_shunt_impedances two_bus_line (b_name bus))) (buses_o two_bus_sub_network)"
    by (simp add: two_bus_sub_network_def bus_shunt_impedances_def two_bus_line_def new_network_def)
  have el: "spec_branch_elements (line_branch (hd (lines two_bus_line))) = (- \<i>, \<i>, \<i>, - \<i>)"
    by (simp add: spec_branch_elements_def spec_elements_def line_branch_def two_bus_line_def
        Complex_eq Let_def)
  have e: "end0 two_bus_sub_network (line_branch (hd (lines two_bus_line))) = 0"
    "end1 two_bus_sub_network (line_branch (hd (lines two_bus_line))) = 1"
    by (simp_all add: end0_def end1_def two_bus_sub_network_def line_branch_def two_bus_line_def
        new_bus_def)
  have sh: "spec_Y_sh two_bus_line b = 0" for b
    by (simp add: spec_Y_sh_def bus_shunt_impedances_def two_bus_line_def new_network_def)
  from calculate_Y_assembles[OF h1 h2 h3[unfolded list_all_iff] h4[unfolded list_all_iff]]
  obtain Y Y0 Y1 where r: "calculate_Y two_bus_line two_bus_sub_network =
      Inr (two_bus_sub_network\<lparr>sn_Y := Y, sn_Y0 := Y0, sn_Y1 := Y1\<rparr>)"
    and a: "\<forall>k j. k < length (sn_branches two_bus_line two_bus_sub_network)
              \<and> j < length (buses_o two_bus_sub_network) \<longrightarrow>
               Y0 ! k ! j = spec_Y0 two_bus_line two_bus_sub_network k j
             \<and> Y1 ! k ! j = spec_Y1 two_bus_line two_bus_sub_network k j"
    and b: "\<forall>i j. i < length (buses_o two_bus_sub_network) \<and> j < length (buses_o two_bus_sub_network) \<longrightarrow>
               Y ! i ! j = spec_Y two_bus_line two_bus_sub_network i j"
    by blast
  have lens: "length (sn_branches two_bus_line two_bus_sub_network) = 1"
    "length (buses_o two_bus_sub_network) = 2"
    unfolding br by (simp_all add: two_bus_sub_network_def)
  have y0: "Y0 ! 0 ! 1 = spec_Y0 two_bus_line two_bus_sub_network 0 1"
    using a[rule_format, of 0 1] lens by simp
  have y: "Y ! 0 ! 1 = spec_Y two_bus_line two_bus_sub_network 0 1"
       "Y ! 0 ! 0 = spec_Y two_bus_line two_bus_sub_network 0 0"
    using b[rule_format, of 0 1] b[rule_format, of 0 0] lens by simp_all
  have "Y0 ! 0 ! 1 = \<i>" "Y ! 0 ! 1 = \<i>" "Y ! 0 ! 0 = - \<i>"
    unfolding y0 y
    by (simp_all add: spec_Y_def spec_Y0_def spec_Y1_def spec_C0_def spec_C1_def br el e sh)
  with r h1 h2 h3 h4 show ?thesis by simp
qed

section \<open>The linear program (opf.py)\<close>

text \<open>
  The pyomo model is kept symbolically. A variable is an entry of a \<open>Var\<close> component: the
  name of the component and the index. An expression is the tree that the arithmetic
  operators of Python build, a constraint is a relational expression, and
  \<open>Constraint.Feasible\<close> is the value of a rule that adds no constraint for its index.
\<close>

datatype lp_var = LPVar string "string list"

datatype expr =
    Num real
  | Var lp_var
  | Plus expr expr
  | Minus expr expr
  | Times expr expr

datatype constr = EqC expr expr | LeC expr expr | GeC expr expr | Feasible

fun eval :: "(lp_var \<Rightarrow> real) \<Rightarrow> expr \<Rightarrow> real" where
  "eval env (Num c) = c"
| "eval env (Var x) = env x"
| "eval env (Plus a b) = eval env a + eval env b"
| "eval env (Minus a b) = eval env a - eval env b"
| "eval env (Times a b) = eval env a * eval env b"

fun vars :: "expr \<Rightarrow> lp_var set" where
  "vars (Num c) = {}"
| "vars (Var x) = {x}"
| "vars (Plus a b) = vars a \<union> vars b"
| "vars (Minus a b) = vars a \<union> vars b"
| "vars (Times a b) = vars a \<union> vars b"

fun holds :: "(lp_var \<Rightarrow> real) \<Rightarrow> constr \<Rightarrow> bool" where
  "holds env (EqC a b) = (eval env a = eval env b)"
| "holds env (LeC a b) = (eval env a \<le> eval env b)"
| "holds env (GeC a b) = (eval env a \<ge> eval env b)"
| "holds env Feasible = True"

text \<open>
  A \<open>Constraint\<close> component over an index set: the rule is called at every index, in
  order, and an index whose rule gives \<open>Constraint.Feasible\<close> gets no constraint.
\<close>

fun declare_constraint ::
  "('i \<Rightarrow> error + constr) \<Rightarrow> 'i list \<Rightarrow> error + ('i \<times> constr) list" where
  "declare_constraint rule [] = Inr []"
| "declare_constraint rule (i # is) =
     (case rule i of
        Inl e \<Rightarrow> Inl e
      | Inr c \<Rightarrow>
          (case declare_constraint rule is of
             Inl e \<Rightarrow> Inl e
           | Inr cs \<Rightarrow> Inr (if c = Feasible then cs else (i, c) # cs)))"

subsection \<open>State of charge of storage units (define\_storage\_variables\_constraints)\<close>

text \<open>
  The snapshots argument by its Python type: the rule finds the position of a snapshot
  with \<open>index\<close> in a list and with \<open>get_loc\<close> in a pandas Index, and for any other type
  leaves \<open>i\<close> unbound. \<open>get_loc\<close> gives a position only for a label that occurs once.
\<close>

datatype snapshots = PyList "snapshot list" | PdIndex "snapshot list" | OtherSeq "snapshot list"

fun items :: "snapshots \<Rightarrow> snapshot list" where
  "items (PyList xs) = xs"
| "items (PdIndex xs) = xs"
| "items (OtherSeq xs) = xs"

fun first_index :: "'a list \<Rightarrow> 'a \<Rightarrow> nat option" where
  "first_index [] a = None"
| "first_index (x # xs) a = (if x = a then Some 0 else map_option Suc (first_index xs a))"

fun snapshot_position :: "snapshots \<Rightarrow> snapshot \<Rightarrow> error + nat" where
  "snapshot_position (PyList xs) t =
     (case first_index xs t of None \<Rightarrow> Inl ValueError | Some i \<Rightarrow> Inr i)"
| "snapshot_position (PdIndex xs) t =
     (case first_index xs t of
        None \<Rightarrow> Inl KeyError
      | Some i \<Rightarrow> if count_list xs t = 1 then Inr i else Inl Unmodelled)"
| "snapshot_position (OtherSeq xs) t = Inl UnboundLocalError"

text \<open>
  \<open>x ** y\<close> on floats, where the result is a real number: a positive base, zero to a
  non-negative power, and a negative base to an integral power.
\<close>

definition py_pow :: "real \<Rightarrow> real \<Rightarrow> error + real" where
  "py_pow x y =
     (if x > 0 then Inr (x powr y)
      else if x = 0 then (if y = 0 then Inr 1 else if y > 0 then Inr 0 else Inl NotANumber)
      else if y = of_int \<lfloor>y\<rfloor> then Inr (x powi \<lfloor>y\<rfloor>)
      else Inl NotANumber)"

definition storage_unit_obj :: "network \<Rightarrow> name \<Rightarrow> error + storage_unit" where
  "storage_unit_obj network su_nm =
     (case find (\<lambda>u. su_name u = su_nm) (storage_units network) of
        None \<Rightarrow> Inl KeyError
      | Some su \<Rightarrow> Inr su)"

definition soc_constraint :: "network \<Rightarrow> snapshots \<Rightarrow> name \<Rightarrow> snapshot \<Rightarrow> error + constr" where
  "soc_constraint network snaps su_nm snapshot =
     (case storage_unit_obj network su_nm of Inl e \<Rightarrow> Inl e | Inr su \<Rightarrow>
      case snapshot_position snaps snapshot of Inl e \<Rightarrow> Inl e | Inr i \<Rightarrow>
      let previous_state_of_charge =
            (if i = 0 then Num (su_state_of_charge_initial su)
             else Var (LPVar ''state_of_charge'' [su_nm, items snaps ! (i - 1)]))
      in
      case snapshot_weightings network snapshot of None \<Rightarrow> Inl KeyError | Some elapsed_hours \<Rightarrow>
      case state_of_charge network snapshot su_nm of None \<Rightarrow> Inl KeyError | Some soc \<Rightarrow>
      let soc_term =
            (case soc of
               None \<Rightarrow> Var (LPVar ''state_of_charge'' [su_nm, snapshot])
             | Some v \<Rightarrow> Num v)
      in
      case py_pow (1 - su_standing_loss su) elapsed_hours of Inl e \<Rightarrow> Inl e | Inr pw \<Rightarrow>
      if su_efficiency_dispatch su = 0 then Inl NotANumber else
      case series network (''storage_units'', ''inflow'') snapshot su_nm of
        None \<Rightarrow> Inl KeyError
      | Some inflow \<Rightarrow>
          Inr (EqC
            (Minus
              (Plus
                (Minus
                  (Plus (Times (Num pw) previous_state_of_charge)
                        (Times (Times (Num (su_efficiency_store su))
                                      (Var (LPVar ''storage_p_store'' [su_nm, snapshot])))
                               (Num elapsed_hours)))
                  (Times (Times (Num (1 / su_efficiency_dispatch su))
                                (Var (LPVar ''storage_p_dispatch'' [su_nm, snapshot])))
                         (Num elapsed_hours)))
                (Num (inflow * elapsed_hours)))
              soc_term)
            (Num 0)))"

definition soc_constraint_fixed :: "network \<Rightarrow> name \<Rightarrow> snapshot \<Rightarrow> error + constr" where
  "soc_constraint_fixed network su_nm snapshot =
     (case storage_unit_obj network su_nm of Inl e \<Rightarrow> Inl e | Inr su \<Rightarrow>
      case state_of_charge network snapshot su_nm of
        None \<Rightarrow> Inl KeyError
      | Some None \<Rightarrow> Inr Feasible
      | Some (Some v) \<Rightarrow> Inr (EqC (Var (LPVar ''state_of_charge'' [su_nm, snapshot])) (Num v)))"

text \<open>The two \<open>Constraint\<close> components, over the storage units and the snapshots.\<close>

definition state_of_charge_constraint ::
  "network \<Rightarrow> snapshots \<Rightarrow> error + ((name \<times> snapshot) \<times> constr) list" where
  "state_of_charge_constraint network snaps =
     declare_constraint (\<lambda>(s, t). soc_constraint network snaps s t)
       (List.product (map su_name (storage_units network)) (items snaps))"

definition state_of_charge_constraint_fixed ::
  "network \<Rightarrow> snapshots \<Rightarrow> error + ((name \<times> snapshot) \<times> constr) list" where
  "state_of_charge_constraint_fixed network snaps =
     declare_constraint (\<lambda>(s, t). soc_constraint_fixed network s t)
       (List.product (map su_name (storage_units network)) (items snaps))"

lemma first_index_before:
  "first_index xs a = Some i \<Longrightarrow> j < i \<Longrightarrow> xs ! j \<noteq> a"
proof (induction xs arbitrary: i j)
  case Nil
  then show ?case by simp
next
  case (Cons x xs)
  show ?case
  proof (cases "x = a")
    case True
    with Cons.prems show ?thesis by simp
  next
    case False
    with Cons.prems obtain i' where i': "first_index xs a = Some i'" "i = Suc i'" by auto
    show ?thesis
    proof (cases j)
      case 0
      with False show ?thesis by simp
    next
      case (Suc j')
      with Cons.prems(2) i' have "j' < i'" by simp
      from Cons.IH[OF i'(1) this] Suc show ?thesis by simp
    qed
  qed
qed

lemma snapshot_position_first:
  "snapshot_position snaps t = Inr i \<Longrightarrow> first_index (items snaps) t = Some i"
  by (cases snaps) (auto split: option.splits if_splits)

lemma declare_constraint_set:
  "declare_constraint rule is = Inr cs \<Longrightarrow>
   (i, c) \<in> set cs \<longleftrightarrow> i \<in> set is \<and> rule i = Inr c \<and> c \<noteq> Feasible"
proof (induction "is" arbitrary: cs)
  case Nil
  then show ?case by simp
next
  case (Cons a "is")
  from Cons.prems obtain c' cs' where r: "rule a = Inr c'" "declare_constraint rule is = Inr cs'"
    "cs = (if c' = Feasible then cs' else (a, c') # cs')"
    by (auto split: sum.splits)
  from Cons.IH[OF r(2)] r(1,3) show ?case by auto
qed

text \<open>
  Claim C7. For a storage unit \<open>s\<close> and a snapshot \<open>t\<close> of the model (the reads of the rule
  succeed): the recurrence constraint is \<open>rest - S = 0\<close>, where \<open>rest\<close> is the carried-over,
  stored, dispatched and inflow energy and does not mention the state of charge variable
  of \<open>(s, t)\<close>. If the given \<open>state_of_charge[t]\<close> is a number, \<open>S\<close> is that number and the
  rule of the second component pins the state of charge variable of \<open>(s, t)\<close> to it; if it
  is nan, \<open>S\<close> is the state of charge variable of \<open>(s, t)\<close> and the second component gets no
  constraint at \<open>(s, t)\<close>.
\<close>

theorem soc_constraint_fixes_given_value:
  assumes "storage_unit_obj network s = Inr su"
      and "snapshot_position snaps t = Inr i"
      and "snapshot_weightings network t = Some w"
      and "state_of_charge network t s = Some soc"
      and "py_pow (1 - su_standing_loss su) w = Inr pw"
      and "su_efficiency_dispatch su \<noteq> 0"
      and "series network (''storage_units'', ''inflow'') t s = Some inflow"
  shows "\<exists>rest.
      soc_constraint network snaps s t =
        Inr (EqC (Minus rest (case soc of Some v \<Rightarrow> Num v
                                         | None \<Rightarrow> Var (LPVar ''state_of_charge'' [s, t])))
                 (Num 0))
    \<and> LPVar ''state_of_charge'' [s, t] \<notin> vars rest
    \<and> (\<forall>env. eval env rest =
          pw * (if i = 0 then su_state_of_charge_initial su
                else env (LPVar ''state_of_charge'' [s, items snaps ! (i - 1)]))
          + su_efficiency_store su * env (LPVar ''storage_p_store'' [s, t]) * w
          - (1 / su_efficiency_dispatch su) * env (LPVar ''storage_p_dispatch'' [s, t]) * w
          + inflow * w)
    \<and> soc_constraint_fixed network s t =
        Inr (case soc of Some v \<Rightarrow> EqC (Var (LPVar ''state_of_charge'' [s, t])) (Num v)
                       | None \<Rightarrow> Feasible)
    \<and> (\<forall>cs c. state_of_charge_constraint_fixed network snaps = Inr cs
          \<and> s \<in> set (map su_name (storage_units network)) \<and> t \<in> set (items snaps) \<longrightarrow>
          (((s, t), c) \<in> set cs) =
          (\<exists>v. soc = Some v \<and> c = EqC (Var (LPVar ''state_of_charge'' [s, t])) (Num v)))"
proof -
  define prev where "prev = (if i = 0 then Num (su_state_of_charge_initial su)
             else Var (LPVar ''state_of_charge'' [s, items snaps ! (i - 1)]))"
  define rest where "rest =
              Plus
                (Minus
                  (Plus (Times (Num pw) prev)
                        (Times (Times (Num (su_efficiency_store su))
                                      (Var (LPVar ''storage_p_store'' [s, t])))
                               (Num w)))
                  (Times (Times (Num (1 / su_efficiency_dispatch su))
                                (Var (LPVar ''storage_p_dispatch'' [s, t])))
                         (Num w)))
                (Num (inflow * w))"
  have c1: "soc_constraint network snaps s t =
        Inr (EqC (Minus rest (case soc of Some v \<Rightarrow> Num v
                                         | None \<Rightarrow> Var (LPVar ''state_of_charge'' [s, t])))
                 (Num 0))"
    using assms by (simp add: soc_constraint_def rest_def prev_def split: option.splits)
  have fi: "first_index (items snaps) t = Some i"
    using snapshot_position_first[OF assms(2)] .
  have "items snaps ! (i - 1) \<noteq> t" if "i \<noteq> 0"
    using first_index_before[OF fi, of "i - 1"] that by simp
  then have c2: "LPVar ''state_of_charge'' [s, t] \<notin> vars rest"
    by (auto simp: rest_def prev_def)
  have c3: "eval env rest =
          pw * (if i = 0 then su_state_of_charge_initial su
                else env (LPVar ''state_of_charge'' [s, items snaps ! (i - 1)]))
          + su_efficiency_store su * env (LPVar ''storage_p_store'' [s, t]) * w
          - (1 / su_efficiency_dispatch su) * env (LPVar ''storage_p_dispatch'' [s, t]) * w
          + inflow * w" for env
    by (simp add: rest_def prev_def)
  have c4: "soc_constraint_fixed network s t =
        Inr (case soc of Some v \<Rightarrow> EqC (Var (LPVar ''state_of_charge'' [s, t])) (Num v)
                       | None \<Rightarrow> Feasible)"
    using assms(1,4) by (simp add: soc_constraint_fixed_def split: option.splits)
  have c5: "(((s, t), c) \<in> set cs) =
          (\<exists>v. soc = Some v \<and> c = EqC (Var (LPVar ''state_of_charge'' [s, t])) (Num v))"
    if "state_of_charge_constraint_fixed network snaps = Inr cs"
       "s \<in> set (map su_name (storage_units network))" "t \<in> set (items snaps)" for cs c
    using declare_constraint_set[OF that(1)[unfolded state_of_charge_constraint_fixed_def], of "(s, t)" c]
      that(2,3) c4
    by (cases soc) auto
  show ?thesis
    using c1 c2 c3 c4 c5 by blast
qed

text \<open>
  An example: one storage unit over two snapshots, its state of charge free (nan) in the
  first and given as 5 in the second.
\<close>

definition one_storage_unit :: network where
  "one_storage_unit = new_network
     \<lparr>storage_units := [\<lparr>su_name = ''s'', su_bus = ''b1'', su_sign = 1, su_p_nom = 10,
         su_p_nom_extendable = False, su_state_of_charge_initial = 0, su_efficiency_store = 1,
         su_efficiency_dispatch = 1, su_standing_loss = 0\<rparr>],
      series := (\<lambda>k t. if k = (''storage_units'', ''inflow'') then [''s'' \<mapsto> 0] else Map.empty),
      state_of_charge := (\<lambda>t. if t = ''t1'' then [''s'' \<mapsto> None]
                               else if t = ''t2'' then [''s'' \<mapsto> Some 5] else Map.empty),
      snapshot_weightings := [''t1'' \<mapsto> 1, ''t2'' \<mapsto> 1]\<rparr>"

theorem soc_constraint_fixes_given_value_witness:
  "storage_unit_obj one_storage_unit ''s'' = Inr (hd (storage_units one_storage_unit))
   \<and> snapshot_position (PyList [''t1'', ''t2'']) ''t1'' = Inr 0
   \<and> snapshot_position (PyList [''t1'', ''t2'']) ''t2'' = Inr 1
   \<and> snapshot_weightings one_storage_unit ''t1'' = Some 1
   \<and> snapshot_weightings one_storage_unit ''t2'' = Some 1
   \<and> state_of_charge one_storage_unit ''t1'' ''s'' = Some None
   \<and> state_of_charge one_storage_unit ''t2'' ''s'' = Some (Some 5)
   \<and> py_pow (1 - su_standing_loss (hd (storage_units one_storage_unit))) 1 = Inr 1
   \<and> su_efficiency_dispatch (hd (storage_units one_storage_unit)) \<noteq> 0
   \<and> series one_storage_unit (''storage_units'', ''inflow'') ''t1'' ''s'' = Some 0
   \<and> series one_storage_unit (''storage_units'', ''inflow'') ''t2'' ''s'' = Some 0
   \<and> soc_constraint_fixed one_storage_unit ''s'' ''t1'' = Inr Feasible
   \<and> soc_constraint_fixed one_storage_unit ''s'' ''t2'' =
       Inr (EqC (Var (LPVar ''state_of_charge'' [''s'', ''t2''])) (Num 5))
   \<and> (\<exists>rest. soc_constraint one_storage_unit (PyList [''t1'', ''t2'']) ''s'' ''t1'' =
         Inr (EqC (Minus rest (Var (LPVar ''state_of_charge'' [''s'', ''t1'']))) (Num 0)))
   \<and> (\<exists>rest. soc_constraint one_storage_unit (PyList [''t1'', ''t2'']) ''s'' ''t2'' =
         Inr (EqC (Minus rest (Num 5)) (Num 0))
         \<and> LPVar ''state_of_charge'' [''s'', ''t2''] \<notin> vars rest)"
proof -
  let ?su = "hd (storage_units one_storage_unit)"
  have h1: "storage_unit_obj one_storage_unit ''s'' = Inr ?su"
    by (simp add: storage_unit_obj_def one_storage_unit_def)
  have h2: "snapshot_position (PyList [''t1'', ''t2'']) ''t1'' = Inr 0"
    "snapshot_position (PyList [''t1'', ''t2'']) ''t2'' = Inr 1"
    by simp_all
  have h3: "snapshot_weightings one_storage_unit ''t1'' = Some 1"
    "snapshot_weightings one_storage_unit ''t2'' = Some 1"
    by (simp_all add: one_storage_unit_def)
  have h4: "state_of_charge one_storage_unit ''t1'' ''s'' = Some None"
    "state_of_charge one_storage_unit ''t2'' ''s'' = Some (Some 5)"
    by (simp_all add: one_storage_unit_def)
  have h5: "py_pow (1 - su_standing_loss ?su) 1 = Inr 1"
    by (simp add: py_pow_def one_storage_unit_def)
  have h6: "su_efficiency_dispatch ?su \<noteq> 0"
    by (simp add: one_storage_unit_def)
  have h7: "series one_storage_unit (''storage_units'', ''inflow'') ''t1'' ''s'' = Some 0"
    "series one_storage_unit (''storage_units'', ''inflow'') ''t2'' ''s'' = Some 0"
    by (simp_all add: one_storage_unit_def)
  note a = soc_constraint_fixes_given_value[OF h1 h2(1) h3(1) h4(1) h5 h6 h7(1)]
  note b = soc_constraint_fixes_given_value[OF h1 h2(2) h3(2) h4(2) h5 h6 h7(2)]
  have r1: "soc_constraint_fixed one_storage_unit ''s'' ''t1'' = Inr Feasible"
    and r2: "\<exists>rest. soc_constraint one_storage_unit (PyList [''t1'', ''t2'']) ''s'' ''t1'' =
         Inr (EqC (Minus rest (Var (LPVar ''state_of_charge'' [''s'', ''t1'']))) (Num 0))"
    using a by auto
  have r3: "soc_constraint_fixed one_storage_unit ''s'' ''t2'' =
       Inr (EqC (Var (LPVar ''state_of_charge'' [''s'', ''t2''])) (Num 5))"
    and r4: "\<exists>rest. soc_constraint one_storage_unit (PyList [''t1'', ''t2'']) ''s'' ''t2'' =
         Inr (EqC (Minus rest (Num 5)) (Num 0))
         \<and> LPVar ''state_of_charge'' [''s'', ''t2''] \<notin> vars rest"
    using b by auto
  show ?thesis
    using h1 h2 h3 h4 h5 h6 h7 r1 r2 r3 r4 by (intro conjI)
qed

section \<open>Series cells and loops with exceptions\<close>

text \<open>
  Reading a cell of a series table that is not there raises KeyError; writing a cell
  sets it (and creates it). The series tables of one component table have the same
  columns, since \<open>Network.add\<close> creates them together.
\<close>

definition get_cell :: "network \<Rightarrow> string \<times> string \<Rightarrow> snapshot \<Rightarrow> name \<Rightarrow> error + real" where
  "get_cell network k t n = (case series network k t n of None \<Rightarrow> Inl KeyError | Some v \<Rightarrow> Inr v)"

definition set_cell :: "string \<times> string \<Rightarrow> snapshot \<Rightarrow> name \<Rightarrow> real \<Rightarrow> network \<Rightarrow> network" where
  "set_cell k t n v network =
     network\<lparr>series := (series network)(k := (series network k)(t := (series network k t)(n \<mapsto> v)))\<rparr>"

text \<open>Writing a list of values to the cells of a list of names, one after the other.\<close>

fun set_cells :: "string \<times> string \<Rightarrow> snapshot \<Rightarrow> (name \<times> real) list \<Rightarrow> network \<Rightarrow> network" where
  "set_cells k t [] network = network"
| "set_cells k t ((n, v) # nvs) network = set_cells k t nvs (set_cell k t n v network)"

definition esum :: "('a \<Rightarrow> error + real) \<Rightarrow> 'a list \<Rightarrow> error + real" where
  "esum f xs = (case emap f xs of Inl e \<Rightarrow> Inl e | Inr ys \<Rightarrow> Inr (sum_list ys))"

text \<open>A for loop over a list whose body changes the state or raises.\<close>

fun efold :: "('a \<Rightarrow> 's \<Rightarrow> error + 's) \<Rightarrow> 'a list \<Rightarrow> 's \<Rightarrow> error + 's" where
  "efold f [] s = Inr s"
| "efold f (x # xs) s = (case f x s of Inl e \<Rightarrow> Inl e | Inr s' \<Rightarrow> efold f xs s')"

section \<open>Topology (components.py, build\_graph and determine\_network\_topology)\<close>

text \<open>\<open>str(i)\<close> for the position of a sub-graph, the name of its sub-network.\<close>

fun str_nat :: "nat \<Rightarrow> string" where
  "str_nat n =
     (if n < 10 then [char_of (48 + n)] else str_nat (n div 10) @ [char_of (48 + n mod 10)])"

declare str_nat.simps [simp del]

text \<open>
  The graph of \<open>build_graph\<close> has the end buses of all branches as nodes, in the order in
  which the branches name them, and one edge per branch, keyed by the branch. The copy
  that \<open>determine_network_topology\<close> works on has the edges of converters and transport
  links removed again, but keeps their nodes. The connected components are found by
  networkx, a parameter here: from the nodes and edges to the sub-graphs, each with its
  nodes in order and the keys of its edges.
\<close>

type_synonym edge = "name \<times> name \<times> (string \<times> name)"
type_synonym graph = "name list \<times> edge list"
type_synonym sub_graph = "name list \<times> (string \<times> name) list"

definition passive_edges :: "network \<Rightarrow> edge list" where
  "passive_edges network =
     map (\<lambda>l. (ln_bus0 l, ln_bus1 l, (''Line'', ln_name l))) (lines network) @
     map (\<lambda>t. (tr_bus0 t, tr_bus1 t, (''Transformer'', tr_name t))) (transformers network)"

definition graph_nodes :: "network \<Rightarrow> name list" where
  "graph_nodes network =
     rev (remdups (rev (concat (map (\<lambda>b. [br_bus0 b, br_bus1 b]) (branches network)))))"

text \<open>
  One pass of the loop over the sub-graphs: \<open>add("SubNetwork", i, graph=sub_graph)\<close> on
  the emptied table, the current type of the first node, and the label of the sub-network
  on its buses and branches. Labelling a node that is not a row of \<open>network.buses\<close> would
  append a row of nans to the bus table; that path is not followed.
\<close>

definition label_sub_graph :: "nat \<times> sub_graph \<Rightarrow> network \<Rightarrow> error + network" where
  "label_sub_graph isg network =
     (case isg of (i, nodes, keys) \<Rightarrow>
      (case nodes of
         [] \<Rightarrow> Inl IndexError
       | b0 # _ \<Rightarrow>
          (case find (\<lambda>b. b_name b = b0) (buses network) of
             None \<Rightarrow> Inl KeyError
           | Some r \<Rightarrow>
               if \<not> set nodes \<subseteq> set (map b_name (buses network)) then Inl Unmodelled
               else Inr (network
                 \<lparr>sub_networks := sub_networks network @
                    [(new_sub_network (str_nat i))\<lparr>sn_current_type := b_current_type r\<rparr>],
                  buses := map (\<lambda>b. if b_name b \<in> set nodes
                                      then b\<lparr>b_sub_network := str_nat i\<rparr> else b) (buses network),
                  lines := map (\<lambda>l. if (''Line'', ln_name l) \<in> set keys
                                      then l\<lparr>ln_sub_network := str_nat i\<rparr> else l) (lines network),
                  transformers := map (\<lambda>t. if (''Transformer'', tr_name t) \<in> set keys
                                      then t\<lparr>tr_sub_network := str_nat i\<rparr> else t)
                                    (transformers network)\<rparr>))))"

definition determine_network_topology ::
  "(graph \<Rightarrow> sub_graph list) \<Rightarrow> network \<Rightarrow> error + network" where
  "determine_network_topology connected_component_subgraphs network =
     (let sub_graphs = connected_component_subgraphs (graph_nodes network, passive_edges network);
          network = network\<lparr>sub_networks := [], topology_determined := False\<rparr>
      in case efold label_sub_graph (zip [0..<length sub_graphs] sub_graphs) network of
           Inl e \<Rightarrow> Inl e
         | Inr network \<Rightarrow> Inr (network\<lparr>topology_determined := True\<rparr>))"

section \<open>Bus controls (pf.py, find\_bus\_controls)\<close>

text \<open>
  \<open>network.buses.loc[names, column] = value\<close> on rows that exist. \<open>drop_duplicates("bus")\<close>
  keeps the first generator of every bus.
\<close>

definition set_bus_control :: "name list \<Rightarrow> string \<Rightarrow> network \<Rightarrow> network" where
  "set_bus_control names c network =
     network\<lparr>buses := map (\<lambda>b. if b_name b \<in> set names then b\<lparr>b_control := c\<rparr> else b)
                          (buses network)\<rparr>"

definition set_bus_generator :: "name \<Rightarrow> string \<Rightarrow> network \<Rightarrow> network" where
  "set_bus_generator n g network =
     network\<lparr>buses := map (\<lambda>b. if b_name b = n then b\<lparr>b_generator := Some g\<rparr> else b)
                          (buses network)\<rparr>"

fun set_bus_generators :: "(name \<times> string) list \<Rightarrow> network \<Rightarrow> network" where
  "set_bus_generators [] network = network"
| "set_bus_generators ((n, g) # ngs) network = set_bus_generators ngs (set_bus_generator n g network)"

fun drop_duplicates_bus :: "name list \<Rightarrow> generator list \<Rightarrow> generator list" where
  "drop_duplicates_bus seen [] = []"
| "drop_duplicates_bus seen (g # gs) =
     (if g_bus g \<in> set seen then drop_duplicates_bus seen gs
      else g # drop_duplicates_bus (g_bus g # seen) gs)"

definition find_bus_controls :: "network \<Rightarrow> sub_network \<Rightarrow> error + (network \<times> sub_network)" where
  "find_bus_controls network sub_network =
     (case find_slack_bus network sub_network of
        Inl e \<Rightarrow> Inl e
      | Inr (network, sub_network) \<Rightarrow>
          (let gens = sn_generators network sub_network;
               bs = sn_buses network sub_network;
               network = set_bus_control (map b_name bs) ''PQ'' network;
               pv_gens = drop_duplicates_bus [] (filter (\<lambda>g. g_control g = ''PV'') gens);
               network = set_bus_control (map g_bus pv_gens) ''PV'' network;
               network = set_bus_generators (zip (map g_bus pv_gens) (map g_name pv_gens)) network;
               network = set_bus_control [slack_bus sub_network] ''Slack'' network;
               network = set_bus_generator (slack_bus sub_network) (slack_generator sub_network)
                           network;
               bs = sn_buses network sub_network;
               sub_network = sub_network\<lparr>pvs := filter (\<lambda>b. b_control b = ''PV'') bs\<rparr>;
               sub_network = sub_network\<lparr>pqs := filter (\<lambda>b. b_control b = ''PQ'') bs\<rparr>;
               sub_network = sub_network\<lparr>pvpqs := pvs sub_network @ pqs sub_network\<rparr>
           in case filter (\<lambda>b. b_name b = slack_bus sub_network) bs of
                [] \<Rightarrow> Inl KeyError
              | slack_rows \<Rightarrow>
                  Inr (network, sub_network\<lparr>buses_o := slack_rows @ pvpqs sub_network\<rparr>)))"

section \<open>Linear power flow (pf.py)\<close>

subsection \<open>calculate\_B\_H\<close>

text \<open>
  The susceptance \<open>1/x_pu\<close> (AC) or \<open>1/r_pu\<close> (DC) of a branch; for any other current type
  the attribute is not bound. \<open>H\<close> is built without a shape, which scipy takes from the
  largest indices; the incidence matrix has the shape given.
\<close>

definition susceptance :: "string \<Rightarrow> branch \<Rightarrow> error + real" where
  "susceptance current_type b =
     (if current_type = ''DC'' then
        (case br_r_pu b of None \<Rightarrow> Inl NotANumber
         | Some r \<Rightarrow> if r = 0 then Inl NotANumber else Inr (1 / r))
      else if current_type = ''AC'' then
        (case br_x_pu b of None \<Rightarrow> Inl NotANumber
         | Some x \<Rightarrow> if x = 0 then Inl NotANumber else Inr (1 / x))
      else Inl UnboundLocalError)"

definition bus_index :: "bus list \<Rightarrow> name \<Rightarrow> error + nat" where
  "bus_index bs b = (case bus_i bs b of None \<Rightarrow> Inl KeyError | Some i \<Rightarrow> Inr i)"

definition calculate_B_H :: "network \<Rightarrow> sub_network \<Rightarrow> error + sub_network" where
  "calculate_B_H network sub_network =
     (let brs = sn_branches network sub_network;
          bs = buses_o sub_network;
          num_branches = length brs;
          num_buses = length bs;
          index = [0..<num_branches] @ [0..<num_branches]
      in case emap (susceptance (sn_current_type sub_network)) brs of Inl e \<Rightarrow> Inl e | Inr b \<Rightarrow>
         case emap (\<lambda>br. bus_index bs (br_bus0 br)) brs of Inl e \<Rightarrow> Inl e | Inr from_bus \<Rightarrow>
         case emap (\<lambda>br. bus_index bs (br_bus1 br)) brs of Inl e \<Rightarrow> Inl e | Inr to_bus \<Rightarrow>
         if num_branches = 0 then Inl ValueError
         else
           (let H = csr_matrix (zip (b @ map uminus b) (zip index (from_bus @ to_bus)))
                      num_branches (Suc (Max (set (from_bus @ to_bus))));
                incidence = csr_matrix (zip (replicate num_branches 1 @ replicate num_branches (- 1))
                                          (zip index (from_bus @ to_bus))) num_branches num_buses;
                B = mat_mul num_branches (Suc (Max (set (from_bus @ to_bus))))
                      (mat_T num_branches num_buses incidence) H
            in Inr (sub_network\<lparr>sn_H := H, sn_B := B\<rparr>)))"

subsection \<open>sub\_network\_lpf\<close>

text \<open>The power injection at a bus: generators and loads as set, and the shunt conductances.\<close>

definition lpf_injection :: "network \<Rightarrow> snapshot \<Rightarrow> name \<Rightarrow> error + real" where
  "lpf_injection network t b =
     (case esum (\<lambda>g. case get_cell network (''generators'', ''p_set'') t (g_name g) of
                        Inl e \<Rightarrow> Inl e | Inr p \<Rightarrow> Inr (g_sign g * p)) (bus_generators network b) of
        Inl e \<Rightarrow> Inl e
      | Inr pg \<Rightarrow>
     (case esum (\<lambda>l. case get_cell network (''loads'', ''p_set'') t (l_name l) of
                        Inl e \<Rightarrow> Inl e | Inr p \<Rightarrow> Inr (l_sign l * p)) (bus_loads network b) of
        Inl e \<Rightarrow> Inl e
      | Inr pl \<Rightarrow>
     (case esum (\<lambda>sh. case num (sh_g_pu sh) of
                        Inl e \<Rightarrow> Inl e | Inr g \<Rightarrow> Inr (sh_sign sh * g)) (bus_shunt_impedances network b) of
        Inl e \<Rightarrow> Inl e
      | Inr ps \<Rightarrow> Inr (pg + pl + ps))))"

definition set_injection :: "bus \<Rightarrow> snapshot \<Rightarrow> network \<Rightarrow> error + network" where
  "set_injection bus t network =
     (case lpf_injection network t (b_name bus) of
        Inl e \<Rightarrow> Inl e
      | Inr p \<Rightarrow> Inr (set_cell (''buses'', ''p'') t (b_name bus) p network))"

text \<open>
  The power of a transport link or converter is taken off the injection of its end
  buses, where they are buses of \<open>buses_o\<close>. The argument names the series tables of the
  branch: \<open>transport_links\<close> or \<open>converters\<close>.
\<close>

definition subtract_end ::
  "bus list \<Rightarrow> snapshot \<Rightarrow> name \<Rightarrow> string \<times> string \<Rightarrow> name \<Rightarrow> network \<Rightarrow> error + network" where
  "subtract_end bs t bus_name k branch_name network =
     (if bus_name \<in> set (map b_name bs) then
        (case get_cell network (''buses'', ''p'') t bus_name of Inl e \<Rightarrow> Inl e | Inr p \<Rightarrow>
         case get_cell network k t branch_name of Inl e \<Rightarrow> Inl e | Inr pt \<Rightarrow>
           Inr (set_cell (''buses'', ''p'') t bus_name (p - pt) network))
      else Inr network)"

definition subtract_controllable ::
  "bus list \<Rightarrow> snapshot \<Rightarrow> string \<Rightarrow> controllable \<Rightarrow> network \<Rightarrow> error + network" where
  "subtract_controllable bs t list_name c network =
     (case subtract_end bs t (cb_bus0 c) (list_name, ''p0'') (cb_name c) network of
        Inl e \<Rightarrow> Inl e
      | Inr network \<Rightarrow> subtract_end bs t (cb_bus1 c) (list_name, ''p1'') (cb_name c) network)"

text \<open>
  The flows \<open>H.dot(v_diff)\<close>, which need a vector of the width of the matrix, and the rows
  of one branch type with their flows.
\<close>

definition mat_vec :: "'a::comm_ring_1 list list \<Rightarrow> 'a list \<Rightarrow> error + 'a list" where
  "mat_vec A v =
     (if \<forall>row \<in> set A. length row = length v
      then Inr (map (\<lambda>row. (\<Sum>k\<leftarrow>[0..<length row]. row ! k * v ! k)) A)
      else Inl ValueError)"

definition typed_flows :: "string \<Rightarrow> branch list \<Rightarrow> real list \<Rightarrow> (name \<times> real) list" where
  "typed_flows ty brs flows =
     map (\<lambda>(b, f). (br_name b, f)) (filter (\<lambda>(b, f). br_type b = ty) (zip brs flows))"

text \<open>
  The voltage differences: zero at the slack bus, which is first in \<open>buses_o\<close>, and the
  solution of \<open>B[1:, 1:] x = p[1:]\<close> at the others, by scipy's \<open>spsolve\<close> (a parameter);
  all zero without branches. A solution of another length cannot be assigned.
\<close>

definition lpf_v_diff ::
  "(real list list \<Rightarrow> real list \<Rightarrow> real list) \<Rightarrow> network \<Rightarrow> sub_network \<Rightarrow> real list \<Rightarrow>
   error + real list" where
  "lpf_v_diff spsolve network sub_network p =
     (let num_buses = length (buses_o sub_network) in
      if length (sn_branches network sub_network) > 0 then
        (let x = spsolve (map tl (tl (sn_B sub_network))) (tl p) in
         if length x = num_buses - 1 then Inr (0 # x)
         else if length x = 1 then Inr (0 # replicate (num_buses - 1) (hd x))
         else Inl ValueError)
      else Inr (replicate num_buses 0))"

text \<open>
  The flows on lines and transformers, written when the sub-network has branches.
  (\<open>branches.loc["Line"]\<close> is taken to give no rows when the sub-network has no line, and
  so for transformers.)
\<close>

definition lpf_set_flows ::
  "network \<Rightarrow> sub_network \<Rightarrow> snapshot \<Rightarrow> real list \<Rightarrow> error + network" where
  "lpf_set_flows network sub_network t v_diff =
     (let brs = sn_branches network sub_network in
      if length brs > 0 then
        (case mat_vec (sn_H sub_network) v_diff of
           Inl e \<Rightarrow> Inl e
         | Inr flows \<Rightarrow>
             (let lns = typed_flows ''Line'' brs flows;
                  trs = typed_flows ''Transformer'' brs flows;
                  network = set_cells (''lines'', ''p1'') t (map (\<lambda>(n, f). (n, - f)) lns) network;
                  network = set_cells (''lines'', ''p0'') t lns network;
                  network = set_cells (''transformers'', ''p1'') t
                              (map (\<lambda>(n, f). (n, - f)) trs) network
              in Inr (set_cells (''transformers'', ''p0'') t trs network)))
      else Inr network)"

text \<open>The bus voltages: angles for AC, magnitudes around the nominal voltage for DC.\<close>

definition lpf_set_voltages :: "network \<Rightarrow> sub_network \<Rightarrow> snapshot \<Rightarrow> real list \<Rightarrow> network" where
  "lpf_set_voltages network sub_network t v_diff =
     (let bs = buses_o sub_network in
      if sn_current_type sub_network = ''AC'' then
        set_cells (''buses'', ''v_ang'') t (zip (map b_name bs) v_diff) network
      else if sn_current_type sub_network = ''DC'' then
        set_cells (''buses'', ''v_mag'') t
          (zip (map b_name bs) (map2 (\<lambda>b d. b_v_nom b + d * b_v_nom b) bs v_diff)) network
      else network)"

text \<open>
  Loads, shunt impedances and generators dispatch as set; then the slack generator takes
  up the difference between the slack bus power and its injection \<open>p[0]\<close>.
\<close>

definition named_cell ::
  "network \<Rightarrow> string \<times> string \<Rightarrow> snapshot \<Rightarrow> name \<Rightarrow> error + (name \<times> real)" where
  "named_cell network k t n =
     (case get_cell network k t n of Inl e \<Rightarrow> Inl e | Inr v \<Rightarrow> Inr (n, v))"

definition lpf_dispatch_as_set :: "network \<Rightarrow> sub_network \<Rightarrow> snapshot \<Rightarrow> error + network" where
  "lpf_dispatch_as_set network sub_network t =
     (case emap (\<lambda>l. named_cell network (''loads'', ''p_set'') t (l_name l))
             (sn_loads network sub_network) of
        Inl e \<Rightarrow> Inl e
      | Inr load_p \<Rightarrow>
          (let network = set_cells (''loads'', ''p'') t load_p network in
           case emap (\<lambda>sh. case num (sh_g_pu sh) of Inl e \<Rightarrow> Inl e | Inr v \<Rightarrow> Inr (sh_name sh, v))
                  (sn_shunt_impedances network sub_network) of
             Inl e \<Rightarrow> Inl e
           | Inr shunt_p \<Rightarrow>
               (let network = set_cells (''shunt_impedances'', ''p'') t shunt_p network in
                case emap (\<lambda>g. named_cell network (''generators'', ''p_set'') t (g_name g))
                       (sn_generators network sub_network) of
                  Inl e \<Rightarrow> Inl e
                | Inr gen_p \<Rightarrow> Inr (set_cells (''generators'', ''p'') t gen_p network))))"

definition lpf_slack_generator ::
  "network \<Rightarrow> sub_network \<Rightarrow> snapshot \<Rightarrow> real list \<Rightarrow> error + network" where
  "lpf_slack_generator network sub_network t p =
     (if slack_generator sub_network \<noteq> '''' then
        (case get_cell network (''generators'', ''p'') t (slack_generator sub_network) of
           Inl e \<Rightarrow> Inl e
         | Inr pg \<Rightarrow>
             (case get_cell network (''buses'', ''p'') t (slack_bus sub_network) of
                Inl e \<Rightarrow> Inl e
              | Inr ps \<Rightarrow>
                  (case p of
                     [] \<Rightarrow> Inl IndexError
                   | p0 # _ \<Rightarrow>
                       Inr (set_cell (''generators'', ''p'') t (slack_generator sub_network)
                              (pg + (ps - p0)) network))))
      else Inr network)"

text \<open>The injections at the buses of \<open>buses_o\<close>, and the vector \<open>p\<close> read back in that order.\<close>

definition lpf_injections :: "network \<Rightarrow> sub_network \<Rightarrow> snapshot \<Rightarrow> error + network" where
  "lpf_injections network sub_network t =
     (let bs = buses_o sub_network in
      case efold (\<lambda>bus. set_injection bus t) bs network of
        Inl e \<Rightarrow> Inl e
      | Inr network \<Rightarrow>
          (case efold (subtract_controllable bs t ''transport_links'') (transport_links network)
                  network of
             Inl e \<Rightarrow> Inl e
           | Inr network \<Rightarrow>
               efold (subtract_controllable bs t ''converters'') (converters network) network))"

definition bus_p :: "network \<Rightarrow> snapshot \<Rightarrow> bus list \<Rightarrow> error + real list" where
  "bus_p network t bs = emap (\<lambda>b. get_cell network (''buses'', ''p'') t (b_name b)) bs"

definition lpf_prepare :: "network \<Rightarrow> sub_network \<Rightarrow> error + (network \<times> sub_network)" where
  "lpf_prepare network sub_network =
     (let network = (if \<not> dependent_values_calculated network
                     then calculate_dependent_values network else network)
      in case find_bus_controls network sub_network of
           Inl e \<Rightarrow> Inl e
         | Inr (network, sub_network) \<Rightarrow>
             if length (sn_branches network sub_network) > 0 then
               (case calculate_B_H network sub_network of
                  Inl e \<Rightarrow> Inl e
                | Inr sub_network \<Rightarrow> Inr (network, sub_network))
             else Inr (network, sub_network))"

text \<open>The function: the steps above in the order of the source.\<close>

definition sub_network_lpf ::
  "(real list list \<Rightarrow> real list \<Rightarrow> real list) \<Rightarrow> network \<Rightarrow> sub_network \<Rightarrow> snapshot option \<Rightarrow>
   error + (network \<times> sub_network)" where
  "sub_network_lpf spsolve network sub_network now_arg =
     (let t = (case now_arg of None \<Rightarrow> now network | Some t \<Rightarrow> t) in
      case lpf_prepare network sub_network of
        Inl e \<Rightarrow> Inl e
      | Inr (network, sub_network) \<Rightarrow>
      (case lpf_injections network sub_network t of
        Inl e \<Rightarrow> Inl e
      | Inr network \<Rightarrow>
      (case bus_p network t (buses_o sub_network) of
        Inl e \<Rightarrow> Inl e
      | Inr p \<Rightarrow>
      (case lpf_v_diff spsolve network sub_network p of
        Inl e \<Rightarrow> Inl e
      | Inr v_diff \<Rightarrow>
      (case lpf_set_flows network sub_network t v_diff of
        Inl e \<Rightarrow> Inl e
      | Inr network \<Rightarrow>
          (let network = set_cell (''buses'', ''p'') t (slack_bus sub_network)
                           (- sum_list (tl p)) network;
               network = lpf_set_voltages network sub_network t v_diff
           in case lpf_dispatch_as_set network sub_network t of
                Inl e \<Rightarrow> Inl e
              | Inr network \<Rightarrow>
                  (case lpf_slack_generator network sub_network t p of
                     Inl e \<Rightarrow> Inl e
                   | Inr network \<Rightarrow> Inr (network, sub_network))))))))"

subsection \<open>network\_lpf\<close>

text \<open>
  \<open>frame.loc[now] = row\<close> for a row of another series table of the same component table,
  and its negative.
\<close>

definition copy_row :: "string \<times> string \<Rightarrow> string \<times> string \<Rightarrow> snapshot \<Rightarrow> network \<Rightarrow> network" where
  "copy_row dst src t network =
     network\<lparr>series := (series network)(dst := (series network dst)(t := series network src t))\<rparr>"

definition copy_row_negated ::
  "string \<times> string \<Rightarrow> string \<times> string \<Rightarrow> snapshot \<Rightarrow> network \<Rightarrow> network" where
  "copy_row_negated dst src t network =
     network\<lparr>series := (series network)(dst := (series network dst)
        (t := (\<lambda>n. map_option uminus (series network src t n))))\<rparr>"

text \<open>The power of converters and transport links is their set point; they have no loss.\<close>

definition set_controllable_flows :: "snapshot \<Rightarrow> network \<Rightarrow> network" where
  "set_controllable_flows t network =
     (let network = copy_row (''converters'', ''p0'') (''converters'', ''p_set'') t network;
          network = copy_row_negated (''converters'', ''p1'') (''converters'', ''p_set'') t network;
          network = copy_row (''transport_links'', ''p0'') (''transport_links'', ''p_set'') t network
      in copy_row_negated (''transport_links'', ''p1'') (''transport_links'', ''p_set'') t network)"

text \<open>
  The loop over \<open>network.sub_networks.obj\<close>: the objects of the table as it is when the
  loop starts, each run on the network as the runs before have left it, and stored back.
\<close>

fun for_sub_networks ::
  "(network \<Rightarrow> sub_network \<Rightarrow> error + (network \<times> sub_network)) \<Rightarrow> nat list \<Rightarrow> network \<Rightarrow>
   error + network" where
  "for_sub_networks body [] network = Inr network"
| "for_sub_networks body (k # ks) network =
     (if k < length (sub_networks network) then
        (case body network (sub_networks network ! k) of
           Inl e \<Rightarrow> Inl e
         | Inr (network, sub_network) \<Rightarrow>
             for_sub_networks body ks
               (network\<lparr>sub_networks := (sub_networks network)[k := sub_network]\<rparr>))
      else Inl IndexError)"

text \<open>The first lines of every analysis: topology and per-unit values where they are stale.\<close>

definition prepare_network ::
  "(graph \<Rightarrow> sub_graph list) \<Rightarrow> network \<Rightarrow> error + network" where
  "prepare_network connected_component_subgraphs network =
     (case (if \<not> topology_determined network
            then determine_network_topology connected_component_subgraphs network
            else Inr network) of
        Inl e \<Rightarrow> Inl e
      | Inr network \<Rightarrow>
          Inr (if \<not> dependent_values_calculated network
               then calculate_dependent_values network else network))"

definition network_lpf ::
  "(graph \<Rightarrow> sub_graph list) \<Rightarrow> (real list list \<Rightarrow> real list \<Rightarrow> real list) \<Rightarrow>
   network \<Rightarrow> snapshot option \<Rightarrow> error + network" where
  "network_lpf connected_component_subgraphs spsolve network now_arg =
     (case prepare_network connected_component_subgraphs network of
        Inl e \<Rightarrow> Inl e
      | Inr network \<Rightarrow>
          (let t = (case now_arg of None \<Rightarrow> now network | Some t \<Rightarrow> t);
               network = set_controllable_flows t network
           in for_sub_networks (\<lambda>network sub_network. sub_network_lpf spsolve network sub_network (Some t))
                [0..<length (sub_networks network)] network))"

subsection \<open>What the writes of a series change\<close>











subsection \<open>The bus table and \<open>buses_o\<close> after find\_bus\_controls\<close>





subsection \<open>The series tables that a step writes\<close>



















subsection \<open>The slack bus takes up the imbalance\<close>











end
